theory Spec2Isabelle
  imports Complex_Main "HOL-Library.Word" "HOL-Library.AList"
begin

section \<open>Wire-level identities of the protocol client (bluesky\_client.py)\<close>

text \<open>
  Python \<open>bytes\<close> are lists of 8-bit words. Python \<open>str\<close> values (topics, group
  names, command lines) are lists of 8-bit characters, the range on which the
  \<open>charmap\<close> codec is total. Python integers are unbounded.
\<close>

type_synonym byte = "8 word"
type_synonym bytes = "byte list"

datatype pyerror = ValueError | UnicodeEncodeError | TypeError

definition IDLEN :: nat where
  "IDLEN = 5"

definition GROUPID_CLIENT :: int where
  "GROUPID_CLIENT = 67"

definition GROUPID_SIM :: int where
  "GROUPID_SIM = 83"

definition GROUPID_NOGROUP :: int where
  "GROUPID_NOGROUP = 78"

definition GROUPID_DEFAULT :: int where
  "GROUPID_DEFAULT = 0"

definition MSG_SUBSCRIBE :: byte where
  "MSG_SUBSCRIBE = 1"

definition MSG_UNSUBSCRIBE :: byte where
  "MSG_UNSUBSCRIBE = 0"

text \<open>The wildcard byte \<open>*\<close> and its replacement \<open>_\<close> in random padding.\<close>

definition WILDCARD :: byte where
  "WILDCARD = 42"

definition UNDERSCORE :: byte where
  "UNDERSCORE = 95"

text \<open>
  \<open>chr(i).encode("charmap")\<close>: \<open>chr\<close> raises ValueError outside the code point
  range, the codec raises UnicodeEncodeError above 255.
\<close>

definition chr_charmap :: "int \<Rightarrow> pyerror + bytes" where
  "chr_charmap i =
     (if i < 0 \<or> 1114111 < i then Inl ValueError
      else if 255 < i then Inl UnicodeEncodeError
      else Inr [word_of_int i])"

definition encode_charmap :: "string \<Rightarrow> bytes" where
  "encode_charmap s = map of_char s"

text \<open>A value that may be passed where a group or an identity is expected.\<close>

datatype pydata = PInt int | PStr string | PBytes bytes

fun asbytestr :: "pydata \<Rightarrow> pyerror + bytes" where
  "asbytestr (PInt i) = chr_charmap i"
| "asbytestr (PStr s) = Inr (encode_charmap s)"
| "asbytestr (PBytes b) = Inr b"

definition seqidx2id :: "int \<Rightarrow> pyerror + bytes" where
  "seqidx2id seqidx = chr_charmap (128 + seqidx)"

text \<open>\<open>seqid2idx\<close> takes an int, or a bytes object on which \<open>ord\<close> is defined
  only at length one.\<close>

datatype seqid = SInt int | SBytes bytes

fun py_ord :: "bytes \<Rightarrow> pyerror + int" where
  "py_ord [b] = Inr (uint b)"
| "py_ord _ = Inl TypeError"

fun seqid2idx :: "seqid \<Rightarrow> pyerror + int" where
  "seqid2idx (SInt v) = Inr (max (- 1) (v - 128))"
| "seqid2idx (SBytes b) =
     (case py_ord b of Inl e \<Rightarrow> Inl e | Inr v \<Rightarrow> Inr (max (- 1) (v - 128)))"

text \<open>
  \<open>os.urandom\<close> is the entropy source: \<open>rnd\<close> is the stream of bytes it hands out,
  \<open>urandom rnd n\<close> its first \<open>n\<close> bytes. \<open>bytes.replace(b"*", b"_")\<close> on
  single bytes is a map.
\<close>

definition urandom :: "(nat \<Rightarrow> byte) \<Rightarrow> nat \<Rightarrow> bytes" where
  "urandom rnd n = map rnd [0..<n]"

definition replace_wildcard :: "bytes \<Rightarrow> bytes" where
  "replace_wildcard bs = map (\<lambda>b. if b = WILDCARD then UNDERSCORE else b) bs"

definition genid :: "(nat \<Rightarrow> byte) \<Rightarrow> pydata \<Rightarrow> int \<Rightarrow> pyerror + bytes" where
  "genid rnd group_id seqidx =
     (case asbytestr group_id of
        Inl e \<Rightarrow> Inl e
      | Inr group_bytes \<Rightarrow>
          if IDLEN \<le> length group_bytes then Inr (take IDLEN group_bytes)
          else
            (let padded =
                   (if length group_bytes < IDLEN - 1
                    then group_bytes @ replace_wildcard (urandom rnd (IDLEN - 1 - length group_bytes))
                    else group_bytes)
             in case seqidx2id seqidx of
                  Inl e \<Rightarrow> Inl e
                | Inr s \<Rightarrow> Inr (padded @ s)))"

text \<open>A group tag is a value \<open>asbytestr\<close> accepts: a byte-sized int, a string or bytes.\<close>

fun group_tag :: "pydata \<Rightarrow> bool" where
  "group_tag (PInt i) = (0 \<le> i \<and> i \<le> 255)"
| "group_tag (PStr s) = True"
| "group_tag (PBytes b) = True"

definition identity_roundtrip :: "int \<Rightarrow> bool" where
  "identity_roundtrip i =
     (case seqidx2id i of Inl e \<Rightarrow> False | Inr b \<Rightarrow> seqid2idx (SBytes b) = Inr i)"

section \<open>The protocol client's state and its subscription operations\<close>

text \<open>
  Every outward call of the client is appended to a journal kept in the state:
  \<open>setsockopt\<close> on the receiving socket, \<open>send_multipart\<close> on the sending socket
  and the invocation of a listener of one of the discovery signals.
\<close>

datatype sockopt = SUBSCRIBE | UNSUBSCRIBE

text \<open>Decoded payloads (what \<open>msgpack.unpackb\<close> returns) and JSON-ready values. A
  float is carried as the real number it denotes; clock readings are reals as well. A
  dict keeps its keys in insertion order.\<close>

datatype pyval =
    VNone
  | VBool bool
  | VInt int
  | VFloat real
  | VStr string
  | VBytes bytes
  | VList "pyval list"
  | VDict "(pyval \<times> pyval) list"

text \<open>The callbacks connected to a signal: the client's own bound methods and the
  listeners of the proxy, named by a number.\<close>

datatype callback = ActnodeCb | RequestDataCb | ListenerCb nat

datatype signal = NodeAdded | NodeRemoved | ServerAdded | ServerRemoved | ActnodeChanged

datatype effect =
    SetSockOpt sockopt bytes
  | SendMultipart bytes pyval
  | Called signal callback bytes

record client =
  node_id :: bytes
  server_id :: bytes
  act_id :: "bytes option"
  connected :: bool
  running :: bool
  sock_recv :: bool
  sock_send :: bool
  poller :: bool
  zmq_context :: bool
  nodes :: "bytes set"
  servers :: "bytes set"
  acttopics :: "(string \<times> pydata list) list"
  node_added :: "callback list"
  node_removed :: "callback list"
  server_added :: "callback list"
  server_removed :: "callback list"
  actnode_changed :: "callback list"
  cmdstack :: "(string \<times> bytes option) list"
  ctx_action :: pyval
  ctx_sender_id :: "bytes option"
  effects :: "effect list"

definition journal :: "effect \<Rightarrow> client \<Rightarrow> client" where
  "journal e c = c\<lparr>effects := effects c @ [e]\<rparr>"

text \<open>\<open>acttopics\<close> is a \<open>defaultdict(set)\<close>: \<open>acttopics[topic].add(g)\<close> creates the
  topic's entry when it is missing, and \<open>discard\<close> leaves an emptied entry in place.\<close>

fun registry_add :: "string \<Rightarrow> pydata \<Rightarrow> (string \<times> pydata list) list \<Rightarrow> (string \<times> pydata list) list" where
  "registry_add t g [] = [(t, [g])]"
| "registry_add t g ((t', gs) # r) =
     (if t = t' then (t', if g \<in> set gs then gs else gs @ [g]) # r
      else (t', gs) # registry_add t g r)"

fun registry_discard :: "string \<Rightarrow> pydata \<Rightarrow> (string \<times> pydata list) list \<Rightarrow> (string \<times> pydata list) list" where
  "registry_discard t g [] = []"
| "registry_discard t g ((t', gs) # r) =
     (if t = t' then (t', removeAll g gs) # r else (t', gs) # registry_discard t g r)"

definition in_registry :: "string \<Rightarrow> (string \<times> pydata list) list \<Rightarrow> bool" where
  "in_registry t r = (t \<in> set (map fst r))"

definition ljust :: "nat \<Rightarrow> byte \<Rightarrow> bytes \<Rightarrow> bytes" where
  "ljust n fill bs = bs @ replicate (n - length bs) fill"

text \<open>The tail shared by \<open>_subscribe\<close> and \<open>_unsubscribe\<close>: encode the three parts,
  build the key and hand it to the socket; an encoding error is caught and logged.\<close>

definition subscription_key :: "string \<Rightarrow> pydata \<Rightarrow> pydata \<Rightarrow> pyerror + bytes" where
  "subscription_key topic from_group to_group =
     (case asbytestr (PStr topic) of
        Inl e \<Rightarrow> Inl e
      | Inr btopic \<Rightarrow>
          (case asbytestr from_group of
             Inl e \<Rightarrow> Inl e
           | Inr bfrom_group \<Rightarrow>
               (case asbytestr to_group of
                  Inl e \<Rightarrow> Inl e
                | Inr bto_group \<Rightarrow> Inr (ljust IDLEN WILDCARD bto_group @ btopic @ bfrom_group))))"

definition setsockopt_key :: "sockopt \<Rightarrow> string \<Rightarrow> pydata \<Rightarrow> pydata \<Rightarrow> client \<Rightarrow> client" where
  "setsockopt_key opt topic from_group to_group c =
     (case subscription_key topic from_group to_group of
        Inl e \<Rightarrow> c
      | Inr subscribe_key \<Rightarrow> journal (SetSockOpt opt subscribe_key) c)"

definition subscribe_low :: "string \<Rightarrow> pydata \<Rightarrow> pydata \<Rightarrow> bool \<Rightarrow> client \<Rightarrow> client" where
  "subscribe_low topic from_group to_group actonly c =
     (if \<not> sock_recv c then c
      else if from_group = PInt GROUPID_DEFAULT then
        (if actonly then
           (let c1 = c\<lparr>acttopics := registry_add topic to_group (acttopics c)\<rparr>
            in case act_id c1 of
                 Some a \<Rightarrow> setsockopt_key SUBSCRIBE topic (PBytes a) to_group c1
               | None \<Rightarrow> c1)
         else setsockopt_key SUBSCRIBE topic (PInt GROUPID_SIM) to_group c)
      else setsockopt_key SUBSCRIBE topic from_group to_group c)"

definition unsubscribe_low :: "string \<Rightarrow> pydata \<Rightarrow> pydata \<Rightarrow> client \<Rightarrow> client" where
  "unsubscribe_low topic from_group to_group c =
     (if \<not> sock_recv c then c
      else if from_group = PInt GROUPID_DEFAULT then
        (if in_registry topic (acttopics c) then
           (let c1 = c\<lparr>acttopics := registry_discard topic to_group (acttopics c)\<rparr>
            in case act_id c1 of
                 Some a \<Rightarrow> setsockopt_key UNSUBSCRIBE topic (PBytes a) to_group c1
               | None \<Rightarrow> c1)
         else setsockopt_key UNSUBSCRIBE topic (PInt GROUPID_SIM) to_group c)
      else setsockopt_key UNSUBSCRIBE topic from_group to_group c)"

text \<open>The keys a call handed to the socket: those of the journal entries it appended.\<close>

fun effect_key :: "effect \<Rightarrow> bytes list" where
  "effect_key (SetSockOpt opt k) = [k]"
| "effect_key _ = []"

definition issued :: "client \<Rightarrow> client \<Rightarrow> effect list" where
  "issued c c' = drop (length (effects c)) (effects c')"

definition issued_keys :: "client \<Rightarrow> client \<Rightarrow> bytes list" where
  "issued_keys c c' = concat (map effect_key (issued c c'))"

subsection \<open>Signals and per-topic subscribers\<close>

text \<open>
  What a callback can raise: an instance of \<open>Exception\<close> that the handler can describe
  in its log line (\<open>PyException\<close>); an instance of \<open>Exception\<close> whose formatting into
  the log line (\<open>f"... {callback}: {e}"\<close>) raises in turn, given with what the
  formatting raises (\<open>Unprintable\<close>); or a system-exiting exception
  (\<open>KeyboardInterrupt\<close>, \<open>SystemExit\<close>), which \<open>except Exception\<close> does not catch.
  \<open>propagates\<close> is what leaves the \<open>try\<close> statement around a callback: nothing when
  the exception is caught and logged, the exception raised inside the \<open>except\<close> clause
  when the logging fails, the exception itself when it is not caught. A runner says
  what calling a callback does: the state it leaves and what it raised, if anything.
\<close>

datatype thrown = PyException string | Unprintable thrown | SystemExiting string

fun propagates :: "thrown \<Rightarrow> thrown option" where
  "propagates (PyException m) = None"
| "propagates (Unprintable t) = Some t"
| "propagates (SystemExiting m) = Some (SystemExiting m)"

type_synonym ('cb, 'a, 's) runner = "'cb \<Rightarrow> 'a \<Rightarrow> 's \<Rightarrow> thrown option \<times> 's"

text \<open>\<open>BlueSkySignal.emit\<close> walks a snapshot of the callback list. The result is what
  propagates to the caller (if anything), the final state, and the calls made with
  what each raised.\<close>

fun signal_emit ::
  "('cb, 'a, 's) runner \<Rightarrow> 'cb list \<Rightarrow> 'a \<Rightarrow> 's
     \<Rightarrow> thrown option \<times> 's \<times> ('cb \<times> thrown option) list" where
  "signal_emit run [] a s = (None, s, [])"
| "signal_emit run (callback # rest) a s =
     (case run callback a s of
        (None, s') \<Rightarrow>
          (case signal_emit run rest a s' of (r, s'', tr) \<Rightarrow> (r, s'', (callback, None) # tr))
      | (Some e, s') \<Rightarrow>
          (case propagates e of
             None \<Rightarrow>
               (case signal_emit run rest a s' of
                  (r, s'', tr) \<Rightarrow> (r, s'', (callback, Some e) # tr))
           | Some t \<Rightarrow> (Some t, s', [(callback, Some e)])))"

text \<open>\<open>BlueSkySubscriber.emit\<close> iterates over the topic's list itself, not over a
  copy: \<open>live s\<close> is that list in state \<open>s\<close>, read again at every step, so a
  callback that keeps appending to it keeps the loop running, and a callback that
  removes an entry shifts the ones behind it.\<close>

partial_function (option) subscriber_emit_from ::
  "('cb, 'a, 's) runner \<Rightarrow> ('s \<Rightarrow> 'cb list) \<Rightarrow> 'a \<Rightarrow> nat \<Rightarrow> 's
     \<Rightarrow> ('cb \<times> thrown option) list
     \<Rightarrow> (thrown option \<times> 's \<times> ('cb \<times> thrown option) list) option" where
  "subscriber_emit_from run live a i s tr =
     (if i < length (live s) then
        (case run (live s ! i) a s of
           (None, s') \<Rightarrow> subscriber_emit_from run live a (Suc i) s' (tr @ [(live s ! i, None)])
         | (Some e, s') \<Rightarrow>
             (case propagates e of
                None \<Rightarrow> subscriber_emit_from run live a (Suc i) s' (tr @ [(live s ! i, Some e)])
              | Some t \<Rightarrow> Some (Some t, s', tr @ [(live s ! i, Some e)])))
      else Some (None, s, tr))"

definition subscriber_emit ::
  "('cb, 'a, 's) runner \<Rightarrow> ('s \<Rightarrow> 'cb list) \<Rightarrow> 'a \<Rightarrow> 's
     \<Rightarrow> (thrown option \<times> 's \<times> ('cb \<times> thrown option) list) option" where
  "subscriber_emit run live a s = subscriber_emit_from run live a 0 s []"

text \<open>\<open>send\<close>: nothing is written unless the client runs and the sending socket
  exists; \<open>to_group or ""\<close> replaces a falsy addressee by the empty string.\<close>

fun falsy :: "pydata \<Rightarrow> bool" where
  "falsy (PInt i) = (i = 0)"
| "falsy (PStr s) = (s = [])"
| "falsy (PBytes b) = (b = [])"

definition send :: "string \<Rightarrow> pyval \<Rightarrow> pydata \<Rightarrow> client \<Rightarrow> client" where
  "send topic data to_group c =
     (if \<not> running c \<or> \<not> sock_send c then c
      else
        (case asbytestr (if falsy to_group then PStr [] else to_group) of
           Inl e \<Rightarrow> c
         | Inr bto_group \<Rightarrow>
             journal (SendMultipart (ljust IDLEN WILDCARD bto_group @ encode_charmap topic @ node_id c) data) c))"

text \<open>\<open>BlueSkySignal.connect\<close> and \<open>disconnect\<close> on a callback list.\<close>

definition signal_connect :: "callback \<Rightarrow> callback list \<Rightarrow> callback list" where
  "signal_connect cb cbs = (if cb \<in> set cbs then cbs else cbs @ [cb])"

definition signal_disconnect :: "callback \<Rightarrow> callback list \<Rightarrow> callback list" where
  "signal_disconnect cb cbs = (if cb \<in> set cbs then remove1 cb cbs else cbs)"

text \<open>Signals whose callbacks are listeners of the proxy: the call of a listener is
  journalled; what it raises is caught and logged and leaves the client as it is.\<close>

definition emit_listeners :: "signal \<Rightarrow> bytes \<Rightarrow> callback list \<Rightarrow> client \<Rightarrow> client" where
  "emit_listeners sig arg callbacks_snapshot c =
     fst (snd (signal_emit (\<lambda>cb a c'. (None, journal (Called sig cb a) c'))
                 callbacks_snapshot arg c))"

text \<open>The resubscription loop of \<open>actnode\<close>: over the topics of the registry and the
  addressees of each, in iteration order.\<close>

definition resubscribe_pair :: "bytes \<Rightarrow> string \<Rightarrow> client \<Rightarrow> pydata \<Rightarrow> client" where
  "resubscribe_pair newact topic c to_group =
     (let c1 = (case act_id c of
                  None \<Rightarrow> c
                | Some old \<Rightarrow>
                    if old \<noteq> [] then unsubscribe_low topic (PBytes old) to_group c else c)
      in subscribe_low topic (PBytes newact) to_group False c1)"

definition resubscribe_topic :: "bytes \<Rightarrow> client \<Rightarrow> string \<times> pydata list \<Rightarrow> client" where
  "resubscribe_topic newact c entry = foldl (resubscribe_pair newact (fst entry)) c (snd entry)"

definition resubscribe :: "bytes \<Rightarrow> client \<Rightarrow> client" where
  "resubscribe newact c = foldl (resubscribe_topic newact) c (acttopics c)"

definition actnode :: "bytes option \<Rightarrow> client \<Rightarrow> bytes option \<times> client" where
  "actnode newact c =
     (case newact of
        None \<Rightarrow> (act_id c, c)
      | Some n \<Rightarrow>
          if n = [] then (act_id c, c)
          else if n \<notin> nodes c then (None, c)
          else
            (let c1 = (if act_id c = None
                       then c\<lparr>node_added := signal_disconnect ActnodeCb (node_added c)\<rparr>
                       else c)
             in if Some n \<noteq> act_id c1 then
                  (let c2 = resubscribe n c1;
                       c3 = c2\<lparr>act_id := Some n\<rparr>;
                       c4 = emit_listeners ActnodeChanged n (actnode_changed c3) c3
                   in (act_id c4, c4))
                else (act_id c1, c1)))"

text \<open>\<open>on_node_added_request_data\<close> sends the same request twice.\<close>

definition request_topics :: pyval where
  "request_topics = VList [VStr ''POLY'', VStr ''STACKCMDS'']"

definition on_node_added_request_data :: "bytes \<Rightarrow> client \<Rightarrow> client" where
  "on_node_added_request_data node c =
     send ''REQUEST'' request_topics (PStr []) (send ''REQUEST'' request_topics (PStr []) c)"

text \<open>\<open>node_added.emit\<close>: the snapshot may hold the client's own bound methods.\<close>

fun run_node_added :: "bytes \<Rightarrow> client \<Rightarrow> callback \<Rightarrow> client" where
  "run_node_added arg c ActnodeCb = snd (actnode (Some arg) c)"
| "run_node_added arg c RequestDataCb = on_node_added_request_data arg c"
| "run_node_added arg c (ListenerCb k) = journal (Called NodeAdded (ListenerCb k) arg) c"

definition emit_node_added :: "bytes \<Rightarrow> client \<Rightarrow> client" where
  "emit_node_added arg c =
     fst (snd (signal_emit (\<lambda>cb a c'. (None, run_node_added a c' cb)) (node_added c) arg c))"

text \<open>Control frames (node discovery). A frame list without a first frame raises
  inside the handler's \<open>try\<close> and is dropped.\<close>

definition process_subscription_message :: "bytes list \<Rightarrow> client \<Rightarrow> client" where
  "process_subscription_message msg c =
     (case msg of
        [] \<Rightarrow> c
      | m0 # rest \<Rightarrow>
          if length m0 = IDLEN + 1 then
            (let sender_id = tl m0;
                 sequence_idx = max (- 1) (uint (last sender_id) - 128)
             in if uint (hd sender_id) = GROUPID_SIM \<or> uint (hd sender_id) = GROUPID_NOGROUP then
                  (if hd m0 = MSG_SUBSCRIBE then
                     (if 0 < sequence_idx then
                        (if sender_id \<notin> nodes c then
                           (let c1 = c\<lparr>nodes := insert sender_id (nodes c)\<rparr>
                            in if sender_id \<noteq> node_id c1 then emit_node_added sender_id c1 else c1)
                         else c)
                      else if sequence_idx = 0 then
                        (if sender_id \<notin> servers c then
                           (let c1 = c\<lparr>servers := insert sender_id (servers c)\<rparr>
                            in emit_listeners ServerAdded sender_id (server_added c1) c1)
                         else c)
                      else c)
                   else if hd m0 = MSG_UNSUBSCRIBE then
                     (if 0 < sequence_idx then
                        (if sender_id \<in> nodes c then
                           (let c1 = c\<lparr>nodes := nodes c - {sender_id}\<rparr>
                            in emit_listeners NodeRemoved sender_id (node_removed c1) c1)
                         else c)
                      else if sequence_idx = 0 then
                        (if sender_id \<in> servers c then
                           (let c1 = c\<lparr>servers := servers c - {sender_id}\<rparr>
                            in emit_listeners ServerRemoved sender_id (server_removed c1) c1)
                         else c)
                      else c)
                   else c)
                else c)
          else c)"

text \<open>\<open>close\<close>: the teardown runs inside a \<open>try\<close>; the step at which the transport
  raises (if any) leaves the later resources as they were. The state is cleared
  after the \<open>try\<close> in every case.\<close>

datatype close_failure =
  NoFailure | UnregisterRecv | UnregisterSend | CloseRecv | CloseSend | DestroyContext

definition teardown :: "close_failure \<Rightarrow> client \<Rightarrow> client" where
  "teardown f c =
     (if poller c \<and> sock_recv c \<and> f = UnregisterRecv then c
      else if poller c \<and> sock_send c \<and> f = UnregisterSend then c
      else if sock_recv c \<and> f = CloseRecv then c
      else
        (let c1 = c\<lparr>sock_recv := False\<rparr>
         in if sock_send c1 \<and> f = CloseSend then c1
            else
              (let c2 = c1\<lparr>sock_send := False\<rparr>
               in if zmq_context c2 \<and> f = DestroyContext then c2
                  else c2\<lparr>zmq_context := False, poller := False\<rparr>)))"

definition close :: "close_failure \<Rightarrow> client \<Rightarrow> client" where
  "close f c =
     (teardown f (c\<lparr>running := False, connected := False\<rparr>))
       \<lparr>nodes := {}, servers := {}, acttopics := [], act_id := None\<rparr>"

text \<open>\<open>__init__\<close> and \<open>connect\<close>. \<open>connect\<close> opens both sockets and announces
  itself with a subscription to its own identity; when the transport fails after
  \<open>opened\<close> of the four resources were created, it closes again and reports failure.\<close>

definition init_client :: "bytes \<Rightarrow> bytes \<Rightarrow> client" where
  "init_client nid sid =
     \<lparr>node_id = nid, server_id = sid, act_id = None, connected = False, running = False,
      sock_recv = False, sock_send = False, poller = False, zmq_context = False,
      nodes = {}, servers = {}, acttopics = [],
      node_added = [ActnodeCb, RequestDataCb], node_removed = [], server_added = [],
      server_removed = [], actnode_changed = [],
      cmdstack = [], ctx_action = VNone, ctx_sender_id = None, effects = []\<rparr>"

definition new_client :: "(nat \<Rightarrow> byte) \<Rightarrow> pydata \<Rightarrow> pyerror + client" where
  "new_client rnd group_id =
     (case genid rnd group_id 1 of
        Inl e \<Rightarrow> Inl e
      | Inr nid \<Rightarrow>
          (case seqidx2id 0 of
             Inl e \<Rightarrow> Inl e
           | Inr s0 \<Rightarrow> Inr (init_client nid (butlast nid @ s0))))"

definition connect :: "bool \<Rightarrow> nat \<Rightarrow> close_failure \<Rightarrow> client \<Rightarrow> bool \<times> client" where
  "connect transport_ok opened f c =
     (let c1 = c\<lparr>zmq_context := True, sock_recv := True, sock_send := True, poller := True\<rparr>
      in if transport_ok then
           (True, (subscribe_low [] (PStr []) (PBytes (node_id c1)) False c1)
                    \<lparr>connected := True, running := True\<rparr>)
         else
           (False,
            close f (c\<lparr>zmq_context := (0 < opened \<or> zmq_context c),
                       sock_recv := (1 < opened \<or> sock_recv c),
                       sock_send := (2 < opened \<or> sock_send c),
                       poller := (3 < opened \<or> poller c)\<rparr>)))"

text \<open>The public \<open>subscribe\<close>, without the callback registration.\<close>

definition subscribe :: "string \<Rightarrow> bool \<Rightarrow> client \<Rightarrow> client" where
  "subscribe topic actonly c = subscribe_low topic (PInt GROUPID_DEFAULT) (PStr []) actonly c"

subsection \<open>Data frames\<close>

text \<open>
  What \<open>_process_data_message\<close> hands to \<open>subscriber.emit\<close>: the topic, the positional
  arguments and the keyword arguments. The codecs are parameters: \<open>utf8\<close> is
  \<open>bytes.decode()\<close>, \<open>unpackb\<close> is \<open>msgpack.unpackb\<close> (both \<open>None\<close> where they
  raise), \<open>str_of\<close> is the builtin \<open>str\<close>.
\<close>

datatype dispatch = Dispatch string "pyval list" "(string \<times> pyval) list"

fun str_keys :: "(pyval \<times> pyval) list \<Rightarrow> (string \<times> pyval) list option" where
  "str_keys [] = Some []"
| "str_keys ((VStr k, v) # kvs) = map_option ((#) (k, v)) (str_keys kvs)"
| "str_keys (kv # kvs) = None"

definition dict_get :: "(pyval \<times> pyval) list \<Rightarrow> pyval \<Rightarrow> pyval \<Rightarrow> pyval" where
  "dict_get d k dflt = (case map_of d k of Some v \<Rightarrow> v | None \<Rightarrow> dflt)"

definition set_context :: "pyval \<Rightarrow> bytes \<Rightarrow> client \<Rightarrow> client" where
  "set_context action_type sender_id c =
     (let c1 = c\<lparr>ctx_action := action_type, ctx_sender_id := Some sender_id\<rparr>
      in if action_type = VStr ''RESET'' \<or> action_type = VStr ''ACTCHANGE''
         then c1\<lparr>ctx_action := (if action_type = VStr ''RESET'' then VStr ''RESET''
                                 else VStr ''ACTCHANGE'')\<rparr>
         else c1)"

definition shared_state :: "string \<Rightarrow> pyval \<Rightarrow> bytes \<Rightarrow> client \<Rightarrow> client \<times> dispatch option" where
  "shared_state topic data sender_id c =
     (case data of
        VList [action_type, actual_data] \<Rightarrow>
          (set_context action_type sender_id c, Some (Dispatch topic [actual_data] []))
      | _ \<Rightarrow> (c, Some (Dispatch topic [data] [])))"

definition echo_arguments :: "(pyval \<Rightarrow> string) \<Rightarrow> pyval \<Rightarrow> bytes \<Rightarrow> pyval list" where
  "echo_arguments str_of data sender_id =
     (case data of
        VList xs \<Rightarrow>
          if 3 \<le> length xs then xs
          else if length xs = 2 then [xs ! 0, xs ! 1, VBytes sender_id]
          else if length xs = 1 then [xs ! 0, VInt 0, VBytes sender_id]
          else [VStr [], VInt 0, VBytes sender_id]
      | VDict kvs \<Rightarrow>
          [dict_get kvs (VStr ''text'') (VStr []), dict_get kvs (VStr ''flags'') (VInt 0),
           dict_get kvs (VStr ''sender_id'') (VBytes sender_id)]
      | _ \<Rightarrow> [VStr (str_of data), VInt 0, VBytes sender_id])"

definition is_list :: "pyval \<Rightarrow> bool" where
  "is_list v = (case v of VList xs \<Rightarrow> True | _ \<Rightarrow> False)"

definition list_items :: "pyval \<Rightarrow> pyval list" where
  "list_items v = (case v of VList xs \<Rightarrow> xs | _ \<Rightarrow> [])"

definition dispatch_data ::
  "(pyval \<Rightarrow> string) \<Rightarrow> string \<Rightarrow> pyval \<Rightarrow> bytes \<Rightarrow> client \<Rightarrow> client \<times> dispatch option" where
  "dispatch_data str_of topic data sender_id c =
     (if topic = [] then (c, None)
      else if topic = ''SIMINFO'' \<and> is_list data \<and> 7 \<le> length (list_items data) then
        (c, Some (Dispatch topic (list_items data) [(''sender_id'', VBytes sender_id)]))
      else if topic = ''ACDATA'' \<or> topic = ''ROUTEDATA'' then shared_state topic data sender_id c
      else if topic = ''ECHO'' then
        (c, Some (Dispatch topic (echo_arguments str_of data sender_id) []))
      else if topic = ''POLY'' then shared_state topic data sender_id c
      else
        (case data of
           VDict kvs \<Rightarrow>
             (case str_keys kvs of
                None \<Rightarrow> (c, None)
              | Some kwargs \<Rightarrow> (c, Some (Dispatch topic [] kwargs)))
         | VList xs \<Rightarrow> (c, Some (Dispatch topic xs []))
         | VStr t \<Rightarrow> (c, Some (Dispatch topic (if t = [] then [] else [data]) []))
         | _ \<Rightarrow> (c, Some (Dispatch topic [data] []))))"

definition process_data_message ::
  "(bytes \<Rightarrow> string option) \<Rightarrow> (bytes \<Rightarrow> pyval option) \<Rightarrow> (pyval \<Rightarrow> string)
     \<Rightarrow> bytes list \<Rightarrow> client \<Rightarrow> client \<times> dispatch option" where
  "process_data_message utf8 unpackb str_of msg c =
     (case msg of
        [] \<Rightarrow> (c, None)
      | header # frames \<Rightarrow>
          if length header < IDLEN * 2 then (c, None)
          else
            (case utf8 (take (length header - 2 * IDLEN) (drop IDLEN header)) of
               None \<Rightarrow> (c, None)
             | Some topic \<Rightarrow>
                 (let sender_id = drop (length header - IDLEN) header
                  in case frames of
                       [] \<Rightarrow> (c, None)
                     | payload # others \<Rightarrow>
                         (case unpackb payload of
                            None \<Rightarrow> (c, None)
                          | Some data \<Rightarrow> dispatch_data str_of topic data sender_id c))))"

subsection \<open>The command stack\<close>

text \<open>\<open>str.strip()\<close>, \<open>str.split(sep)\<close>, \<open>str.split()\<close> and \<open>str.upper()\<close>.
  Whitespace is what \<open>str.isspace\<close> accepts among the first 256 code points;
  \<open>upper\<close> is given on the ASCII letters, other characters are left as they are.\<close>

definition py_isspace :: "char \<Rightarrow> bool" where
  "py_isspace ch =
     (let n = (of_char ch :: nat)
      in (9 \<le> n \<and> n \<le> 13) \<or> (28 \<le> n \<and> n \<le> 32) \<or> n = 133 \<or> n = 160)"

definition strip :: "string \<Rightarrow> string" where
  "strip s = rev (dropWhile py_isspace (rev (dropWhile py_isspace s)))"

fun split_on :: "char \<Rightarrow> string \<Rightarrow> string list" where
  "split_on sep [] = [[]]"
| "split_on sep (ch # s) =
     (if ch = sep then [] # split_on sep s
      else (case split_on sep s of
              [] \<Rightarrow> [[ch]]
            | w # ws \<Rightarrow> (ch # w) # ws))"

fun split_ws :: "string \<Rightarrow> string list" where
  "split_ws [] = []"
| "split_ws (ch # s) =
     (if py_isspace ch then split_ws s
      else (case s of
              [] \<Rightarrow> [[ch]]
            | ch' # s' \<Rightarrow>
                if py_isspace ch' then [ch] # split_ws s
                else (case split_ws s of
                        [] \<Rightarrow> [[ch]]
                      | w # ws \<Rightarrow> (ch # w) # ws)))"

definition py_upper :: "string \<Rightarrow> string" where
  "py_upper s =
     map (\<lambda>ch. let n = (of_char ch :: nat) in if 97 \<le> n \<and> n \<le> 122 then char_of (n - 32) else ch) s"

definition join_space :: "string list \<Rightarrow> string" where
  "join_space ws = (case ws of [] \<Rightarrow> [] | w # rest \<Rightarrow> w @ concat (map (\<lambda>x. CHR '' '' # x) rest))"

text \<open>\<open>BlueSkyStack.stack\<close> for one command line.\<close>

definition stack :: "string \<Rightarrow> bytes option \<Rightarrow> client \<Rightarrow> client" where
  "stack cmdline sender_id c =
     (let stripped = strip cmdline
      in if stripped = [] then c
         else c\<lparr>cmdstack := cmdstack c
                  @ map (\<lambda>line. (strip line, sender_id)) (split_on CHR '';'' stripped)\<rparr>)"

section \<open>The proxy state (proxy/core.py) and the event channel\<close>

text \<open>\<open>bytes.hex()\<close> and \<open>safe\_decode\<close>: the text itself when every byte is
  printable ASCII, the upper-case hex form otherwise (a byte outside ASCII is either
  not UTF-8 or decodes to a character that is not printable ASCII).\<close>

definition hex_digit :: "nat \<Rightarrow> char" where
  "hex_digit n = (''0123456789abcdef'') ! (n mod 16)"

definition hex :: "bytes \<Rightarrow> string" where
  "hex bs = concat (map (\<lambda>b. [hex_digit (unat b div 16), hex_digit (unat b mod 16)]) bs)"

definition HEX_digit :: "nat \<Rightarrow> char" where
  "HEX_digit n = (''0123456789ABCDEF'') ! (n mod 16)"

definition safe_decode :: "bytes \<Rightarrow> string" where
  "safe_decode bs =
     (if \<forall>b \<in> set bs. 32 \<le> unat b \<and> unat b \<le> 126 then map (\<lambda>b. char_of (unat b)) bs
      else concat (map (\<lambda>b. [HEX_digit (unat b div 16), HEX_digit (unat b mod 16)]) bs))"

record node_info =
  ni_node_id :: bytes
  ni_node_num :: int
  ni_server_id :: bytes
  ni_status :: pyval
  ni_time :: string

text \<open>What is pushed to the consumers: the event name and its payload. The payload of
  \<open>node_info\<close> is recorded by the values it is assembled from.\<close>

datatype event =
    Emit string pyval
  | NodeInfo "(string \<times> node_info) list" "bytes list" "string option" nat

record proxy =
  bluesky_client :: "client option"
  proxy_running :: bool
  socketio :: bool
  allow_reconnection :: bool
  last_successful_update :: real
  connection_timeout :: real
  was_connected :: bool
  connection_failures :: int
  max_connection_failures :: int
  traffic_data :: pyval
  sim_data :: pyval
  echo_data :: pyval
  last_update :: real
  poly_data_by_node :: "(string \<times> pyval) list"
  polyline_data_by_node :: "(string \<times> pyval) list"
  last_siminfo_emit :: real
  last_acdata_emit :: real
  last_echo_emit :: real
  siminfo_interval :: real
  acdata_interval :: real
  connected_clients :: int
  tracked_nodes :: "(string \<times> node_info) list"
  tracked_servers :: "bytes list"
  current_bbox :: pyval
  aircraft_counter :: int
  server_ip :: string
  cmddict :: "(string \<times> string) list"
  emitted :: "event list"

text \<open>\<open>socketio.emit\<close>, and the guard every push stands behind.\<close>

definition emit :: "event \<Rightarrow> proxy \<Rightarrow> proxy" where
  "emit ev p = p\<lparr>emitted := emitted p @ [ev]\<rparr>"

definition has_consumers :: "proxy \<Rightarrow> bool" where
  "has_consumers p = (socketio p \<and> 0 < connected_clients p)"

text \<open>\<open>BlueSkyProxy.__init__\<close>; \<open>now\<close> is the clock reading at construction. The
  two intervals are the literal \<open>0.1\<close>, that is the double nearest to one tenth.\<close>

definition tenth :: real where
  "tenth = 3602879701896397 / 36028797018963968"


definition init_proxy :: "real \<Rightarrow> proxy" where
  "init_proxy now =
     \<lparr>bluesky_client = None, proxy_running = False, socketio = False,
      allow_reconnection = False, last_successful_update = now, connection_timeout = 10,
      was_connected = False, connection_failures = 0, max_connection_failures = 3,
      traffic_data = VDict [], sim_data = VDict [], echo_data = VDict [], last_update = 0,
      poly_data_by_node = [], polyline_data_by_node = [],
      last_siminfo_emit = 0, last_acdata_emit = 0, last_echo_emit = 0,
      siminfo_interval = tenth, acdata_interval = tenth,
      connected_clients = 0, tracked_nodes = [], tracked_servers = [],
      current_bbox = VNone, aircraft_counter = 0, server_ip = ''localhost'',
      cmddict = [(''HELP'', ''HELP [command]: Display help information''),
                 (''?'', ''?: Display help information (alias for HELP)'')],
      emitted = []\<rparr>"

subsection \<open>Builtins and library calls\<close>

text \<open>
  The builtins and library calls that the proxy applies to payload values and clock
  readings, taken as parameters: \<open>float\<close>, \<open>int\<close> (\<open>None\<close> where they raise),
  \<open>str\<close>, the clock text of \<open>tim2txt\<close> (built from \<open>gmtime\<close> and \<open>strftime\<close>),
  \<open>bytes.decode\<close>, the \<open>struct\<close>-based decoding of a serialised numeric array
  (\<open>None\<close> where it raises and the dict is processed as an ordinary one), and the
  subtraction of two doubles. Clock readings, timeouts and intervals are doubles, each
  carried as the real number it denotes: their comparison is the comparison of these
  reals, while their difference is rounded to a double and so is not the difference of
  the reals.
\<close>

record builtins =
  py_float :: "pyval \<Rightarrow> real option"
  py_int :: "pyval \<Rightarrow> int option"
  py_str :: "pyval \<Rightarrow> string"
  tim2txt :: "pyval \<Rightarrow> string option"
  utf8_decode :: "bytes \<Rightarrow> string option"
  unpack_array :: "(pyval \<times> pyval) list \<Rightarrow> pyval option"
  float_sub :: "real \<Rightarrow> real \<Rightarrow> real"

text \<open>Builtins as they act on plain numbers and ASCII text, for the examples; the
  clock readings of the examples are doubles whose differences are doubles, so that
  their subtraction is exact.\<close>

definition sample_builtins :: builtins where
  "sample_builtins =
     \<lparr>py_float = (\<lambda>v. case v of VInt i \<Rightarrow> Some (of_int i) | VFloat r \<Rightarrow> Some r
                          | VBool b \<Rightarrow> Some (if b then 1 else 0) | _ \<Rightarrow> None),
      py_int = (\<lambda>v. case v of VInt i \<Rightarrow> Some i | VBool b \<Rightarrow> Some (if b then 1 else 0)
                        | VFloat r \<Rightarrow> Some (if 0 \<le> r then \<lfloor>r\<rfloor> else \<lceil>r\<rceil>) | _ \<Rightarrow> None),
      py_str = (\<lambda>v. case v of VStr t \<Rightarrow> t | _ \<Rightarrow> ''?''),
      tim2txt = (\<lambda>v. Some ''00:00:00.00''),
      utf8_decode = (\<lambda>b. if \<forall>x \<in> set b. unat x < 128 then Some (map (\<lambda>x. char_of (unat x)) b)
                            else None),
      unpack_array = (\<lambda>kvs. None),
      float_sub = (\<lambda>x y. x - y)\<rparr>"

subsection \<open>Node manager\<close>

definition get_safe_active_node :: "proxy \<Rightarrow> string option" where
  "get_safe_active_node p =
     (case bluesky_client p of
        None \<Rightarrow> None
      | Some c \<Rightarrow>
          if \<not> proxy_running p \<or> \<not> was_connected p \<or> length (tracked_nodes p) = 0 then None
          else
            (case act_id c of
               None \<Rightarrow> None
             | Some raw_active_id \<Rightarrow>
                 if raw_active_id = [] then None
                 else
                   (let active_id_str = hex raw_active_id
                    in if active_id_str \<in> set (map fst (tracked_nodes p))
                       then Some active_id_str else None)))"

definition emit_node_info :: "proxy \<Rightarrow> proxy" where
  "emit_node_info p =
     (if has_consumers p
      then emit (NodeInfo (tracked_nodes p) (tracked_servers p) (get_safe_active_node p)
                   (length (tracked_nodes p))) p
      else p)"

subsection \<open>Connection manager\<close>

definition connection_status :: "bool \<Rightarrow> string \<Rightarrow> real \<Rightarrow> event" where
  "connection_status conn ip t =
     Emit ''connection_status''
       (VDict [(VStr ''connected'', VBool conn), (VStr ''server_ip'', VStr ip),
               (VStr ''timestamp'', VFloat t)])"

definition emit_connection_status :: "real \<Rightarrow> bool \<Rightarrow> proxy \<Rightarrow> proxy" where
  "emit_connection_status now conn p =
     (if has_consumers p then emit (connection_status conn (server_ip p) now) p else p)"

definition empty_traffic_data :: pyval where
  "empty_traffic_data =
     VDict [(VStr ''id'', VList []), (VStr ''lat'', VList []), (VStr ''lon'', VList []),
            (VStr ''alt'', VList []), (VStr ''tas'', VList []), (VStr ''trk'', VList []),
            (VStr ''vs'', VList []), (VStr ''inconf'', VList []), (VStr ''tcpamax'', VList []),
            (VStr ''nconf_cur'', VInt 0), (VStr ''nconf_tot'', VInt 0),
            (VStr ''nlos_cur'', VInt 0), (VStr ''nlos_tot'', VInt 0)]"

definition empty_sim_data :: pyval where
  "empty_sim_data =
     VDict [(VStr ''speed'', VFloat 0), (VStr ''simdt'', VFloat 0), (VStr ''simt'', VFloat 0),
            (VStr ''simutc'', VStr []), (VStr ''ntraf'', VInt 0), (VStr ''state'', VInt 0),
            (VStr ''scenname'', VStr ''disconnected'')]"

definition empty_shape_data :: pyval where
  "empty_shape_data = VDict [(VStr ''polys'', VDict [])]"

definition server_disconnected :: "real \<Rightarrow> event" where
  "server_disconnected t =
     Emit ''server_disconnected''
       (VDict [(VStr ''timestamp'', VFloat t), (VStr ''reason'', VStr ''BlueSky server disconnected'')])"

definition emit_cleared_data :: "real \<Rightarrow> proxy \<Rightarrow> proxy" where
  "emit_cleared_data now p =
     (if has_consumers p then
        emit (server_disconnected now)
          (emit (Emit ''polyline'' empty_shape_data)
            (emit (Emit ''poly'' empty_shape_data)
              (emit (Emit ''siminfo'' empty_sim_data)
                (emit (Emit ''acdata'' empty_traffic_data) p))))
      else p)"

text \<open>\<open>ConnectionManager.close\<close>: closes the protocol client and resets the monitoring
  state and the caches. \<open>f\<close> is the step at which the client's teardown fails, if any.\<close>

definition close_connection :: "close_failure \<Rightarrow> real \<Rightarrow> proxy \<Rightarrow> proxy" where
  "close_connection f now p =
     (let p1 = p\<lparr>allow_reconnection := False\<rparr>;
          p2 = p1\<lparr>bluesky_client := map_option (close f) (bluesky_client p1)\<rparr>;
          p3 = p2\<lparr>was_connected := False, last_successful_update := now,
                   tracked_nodes := [], tracked_servers := []\<rparr>;
          p4 = p3\<lparr>bluesky_client := map_option (\<lambda>c. c\<lparr>act_id := None\<rparr>) (bluesky_client p3)\<rparr>
      in p4\<lparr>traffic_data := VDict [], sim_data := VDict [], echo_data := VDict [],
             last_update := 0, last_siminfo_emit := 0, last_acdata_emit := 0,
             last_echo_emit := 0, current_bbox := VNone, aircraft_counter := 0,
             cmddict := []\<rparr>)"

text \<open>\<open>_handle_disconnection\<close>. The three clock readings are those of the status
  event, of the \<open>server_disconnected\<close> event and of \<open>close\<close>.\<close>

definition handle_disconnection :: "close_failure \<Rightarrow> real \<Rightarrow> real \<Rightarrow> real \<Rightarrow> proxy \<Rightarrow> proxy" where
  "handle_disconnection f t1 t2 t3 p =
     (let p1 = (if was_connected p
                then emit_connection_status t1 False (p\<lparr>was_connected := False\<rparr>)
                else p);
          p2 = p1\<lparr>proxy_running := False, allow_reconnection := False, connection_failures := 0\<rparr>;
          p3 = p2\<lparr>bluesky_client := map_option (\<lambda>c. c\<lparr>act_id := None\<rparr>) (bluesky_client p2)\<rparr>;
          p4 = p3\<lparr>tracked_nodes := [], tracked_servers := [],
                   traffic_data := VDict [], sim_data := VDict [], echo_data := VDict [],
                   poly_data_by_node := [], polyline_data_by_node := []\<rparr>;
          p5 = (if has_consumers p4 then emit_node_info (emit_cleared_data t2 p4) else p4)
      in close_connection f t3 p5)"

text \<open>
  \<open>BlueSkyClient.update()\<close> with \<open>receive()\<close>, as the poll loop sees them. Both
  return \<open>False\<close> at once for a client that is not running, not connected or without a
  poller. Otherwise the pending frames are received and processed: \<open>process\<close> is what
  this does to the state, up to the point where the transport raises, if it does;
  \<open>transport_ok\<close> is \<open>False\<close> when polling or receiving raises. \<open>receive()\<close>
  catches what the transport raises and returns \<open>False\<close>, and \<open>update()\<close> catches
  every \<open>Exception\<close> that could be left: a transport failure is a returned
  \<open>False\<close>, never an exception.
\<close>

definition client_update :: "bool \<Rightarrow> (proxy \<Rightarrow> proxy) \<Rightarrow> proxy \<Rightarrow> bool \<times> proxy" where
  "client_update transport_ok process p =
     (case bluesky_client p of
        None \<Rightarrow> (False, p)
      | Some c \<Rightarrow>
          if \<not> running c \<or> \<not> connected c then (False, p)
          else if \<not> running c \<or> \<not> poller c then (False, p)
          else (transport_ok, process p))"

text \<open>
  One tick of the poll loop (\<open>network_timer_callback\<close>). The value that \<open>update()\<close>
  returns is not looked at, and the failure count is reset right after the call.
  \<open>clock\<close> gives the readings of \<open>time.time()\<close>: \<open>clock 0\<close> is \<open>current_time\<close>,
  \<open>clock 1\<close> the stamp of the status event of the tick, \<open>clock 2\<close>, \<open>clock 3\<close> and
  \<open>clock 4\<close> the readings inside the disconnection. The result says whether the next
  tick was scheduled.

  No statement of the \<open>try\<close> block raises an instance of \<open>Exception\<close>: \<open>update()\<close>
  catches its own, and the status event, the disconnection and \<open>close\<close> guard their
  transport calls themselves. The \<open>except\<close> clause of the callback, which counts a
  failure and disconnects at the maximum, is therefore not entered, and the tick has no
  branch for it.
\<close>

definition network_timer_callback ::
  "builtins \<Rightarrow> bool \<Rightarrow> (proxy \<Rightarrow> proxy) \<Rightarrow> close_failure \<Rightarrow> (nat \<Rightarrow> real) \<Rightarrow> proxy
     \<Rightarrow> proxy \<times> bool" where
  "network_timer_callback bi transport_ok process f clock p =
     (if proxy_running p \<and> allow_reconnection p \<and> bluesky_client p \<noteq> None then
        (let p1 = snd (client_update transport_ok process p);
             p2 = p1\<lparr>connection_failures := 0\<rparr>;
             current_time = clock 0;
             has_active_nodes = (0 < length (tracked_nodes p2));
             disconnect = handle_disconnection f (clock 2) (clock 3) (clock 4)
         in if has_active_nodes \<and> \<not> was_connected p2 then
              (let p3 = emit_connection_status (clock 1) True (p2\<lparr>was_connected := True\<rparr>)
               in if connection_timeout p3 < float_sub bi current_time (last_successful_update p3)
                  then (disconnect p3, False)
                  else (p3, proxy_running p3 \<and> allow_reconnection p3))
            else if \<not> has_active_nodes \<and> was_connected p2
                    \<and> connection_timeout p2 < float_sub bi current_time (last_successful_update p2)
            then
              (disconnect (emit_connection_status (clock 1) False (p2\<lparr>was_connected := False\<rparr>)),
               False)
            else if was_connected p2
                    \<and> connection_timeout p2 < float_sub bi current_time (last_successful_update p2)
            then (disconnect p2, False)
            else (p2, proxy_running p2 \<and> allow_reconnection p2))
      else (p, False))"

subsection \<open>Command processor\<close>

definition execute_local_command :: "string \<Rightarrow> string \<Rightarrow> bool \<times> string" where
  "execute_local_command cmd argstring =
     (if cmd = ''HELP'' \<or> cmd = ''?'' then
        (if argstring = [] then (True, ''BlueSky Web Client: Enter commands to control simulation'')
         else (True, ''Help for '' @ argstring @ '': Command forwarded to server''))
      else (False, ''Local command '' @ cmd @ '' not implemented in web client''))"

definition echo_response :: "real \<Rightarrow> string \<Rightarrow> int \<Rightarrow> proxy \<Rightarrow> proxy" where
  "echo_response now text flags p =
     (let echo = VDict [(VStr ''text'', VStr text), (VStr ''flags'', VInt flags),
                        (VStr ''timestamp'', VFloat now)];
          p1 = p\<lparr>echo_data := echo\<rparr>
      in if has_consumers p1 then emit (Emit ''echo'' echo) p1 else p1)"

text \<open>\<open>_forward_command\<close>: the target is \<open>act_id or server_id\<close>. Without a client
  the attribute access raises, which becomes a failure echo.\<close>

definition forward_target :: "client \<Rightarrow> bytes" where
  "forward_target c = (case act_id c of None \<Rightarrow> server_id c | Some a \<Rightarrow> if a = [] then server_id c else a)"

definition no_client_error :: string where
  "no_client_error =
     [CHR 0x27] @ ''NoneType'' @ [CHR 0x27] @ '' object has no attribute ''
       @ [CHR 0x27] @ ''act_id'' @ [CHR 0x27]"

definition forward_command :: "real \<Rightarrow> string \<Rightarrow> proxy \<Rightarrow> proxy" where
  "forward_command now cmdline p =
     (case bluesky_client p of
        None \<Rightarrow> echo_response now (''Error sending command: '' @ no_client_error) 1 p
      | Some c \<Rightarrow>
          p\<lparr>bluesky_client := Some (send ''STACK'' (VStr cmdline) (PBytes (forward_target c)) c)\<rparr>)"

text \<open>The body of the drain loop for one popped command line.\<close>

definition process_command :: "real \<Rightarrow> string \<Rightarrow> proxy \<Rightarrow> proxy" where
  "process_command now cmdline p =
     (case split_ws (strip cmdline) of
        [] \<Rightarrow> p
      | first # args \<Rightarrow>
          (let cmd = py_upper first;
               argstring = join_space args
           in if cmd = ''HELP'' \<or> cmd = ''?'' then
                (let (success, text) = execute_local_command cmd argstring;
                     echoflags = (if \<not> success \<and> argstring \<noteq> [] then 2 else 0);
                     echotext =
                       (if success then text
                        else if argstring = []
                        then (if text \<noteq> [] then text else cmd @ '': Command help text'')
                        else ''Syntax error: '' @ (if text \<noteq> [] then text else ''Usage: '' @ cmd))
                 in if echotext \<noteq> [] then echo_response now echotext echoflags p else p)
              else forward_command now cmdline p))"

text \<open>\<open>BlueSkyStack.commands\<close> driven by \<open>_process_stack_commands\<close>: pop the
  leftmost entry while the stack is not empty. \<open>clock k\<close> is the clock reading taken
  while the \<open>k\<close>-th popped entry is processed.\<close>

definition cmdstack_of :: "proxy \<Rightarrow> (string \<times> bytes option) list" where
  "cmdstack_of p = (case bluesky_client p of None \<Rightarrow> [] | Some c \<Rightarrow> cmdstack c)"

definition popleft :: "proxy \<Rightarrow> proxy" where
  "popleft p = p\<lparr>bluesky_client := map_option (\<lambda>c. c\<lparr>cmdstack := tl (cmdstack c)\<rparr>) (bluesky_client p)\<rparr>"

lemma cmdstack_of_echo_response [simp]:
  "cmdstack_of (echo_response now text flags p) = cmdstack_of p"
  by (simp add: echo_response_def cmdstack_of_def Let_def emit_def)

lemma cmdstack_send [simp]: "cmdstack (send topic data to_group c) = cmdstack c"
  by (simp add: send_def journal_def split: sum.splits)

lemma cmdstack_of_forward_command [simp]:
  "cmdstack_of (forward_command now cmdline p) = cmdstack_of p"
proof (cases "bluesky_client p")
  case None
  then show ?thesis by (simp add: forward_command_def)
next
  case (Some c)
  then show ?thesis by (simp add: forward_command_def cmdstack_of_def)
qed

lemma cmdstack_of_process_command [simp]:
  "cmdstack_of (process_command now cmdline p) = cmdstack_of p"
  by (simp add: process_command_def Let_def split: list.splits prod.splits)

lemma cmdstack_of_popleft [simp]: "cmdstack_of (popleft p) = tl (cmdstack_of p)"
  by (simp add: popleft_def cmdstack_of_def split: option.splits)






subsection \<open>Telemetry, traffic and echo handlers\<close>

text \<open>Truthiness, and \<open>make_json_serializable\<close> on decoded payloads (\<open>None\<close> where a
  key fails to decode and the call raises).\<close>

fun truthy :: "pyval \<Rightarrow> bool" where
  "truthy VNone = False"
| "truthy (VBool b) = b"
| "truthy (VInt i) = (i \<noteq> 0)"
| "truthy (VFloat r) = (r \<noteq> 0)"
| "truthy (VStr s) = (s \<noteq> [])"
| "truthy (VBytes b) = (b \<noteq> [])"
| "truthy (VList xs) = (xs \<noteq> [])"
| "truthy (VDict kvs) = (kvs \<noteq> [])"

definition json_key :: "builtins \<Rightarrow> pyval \<Rightarrow> pyval option" where
  "json_key bi k = (case k of VBytes b \<Rightarrow> map_option VStr (utf8_decode bi b) | _ \<Rightarrow> Some k)"

definition is_numpy_dict :: "(pyval \<times> pyval) list \<Rightarrow> bool" where
  "is_numpy_dict kvs =
     (let ks = set (map fst kvs)
      in VBytes (encode_charmap ''numpy'') \<in> ks \<and> VBytes (encode_charmap ''data'') \<in> ks
         \<and> VBytes (encode_charmap ''type'') \<in> ks \<and> VBytes (encode_charmap ''shape'') \<in> ks)"

definition dict_of_items :: "(pyval \<times> pyval) list \<Rightarrow> (pyval \<times> pyval) list" where
  "dict_of_items items = foldl (\<lambda>d kv. AList.update (fst kv) (snd kv) d) [] items"

fun those_all :: "'a option list \<Rightarrow> 'a list option" where
  "those_all [] = Some []"
| "those_all (None # xs) = None"
| "those_all (Some x # xs) = map_option ((#) x) (those_all xs)"

fun make_json_serializable :: "builtins \<Rightarrow> pyval \<Rightarrow> pyval option" where
  "make_json_serializable bi (VDict kvs) =
     (case (if is_numpy_dict kvs then unpack_array bi kvs else None) of
        Some values \<Rightarrow> Some values
      | None \<Rightarrow>
          map_option (\<lambda>items. VDict (dict_of_items items))
            (those_all (map (\<lambda>kv. case json_key bi (fst kv) of
                                      None \<Rightarrow> None
                                    | Some k \<Rightarrow> map_option (Pair k) (make_json_serializable bi (snd kv)))
                           kvs)))"
| "make_json_serializable bi (VList xs) =
     map_option VList (those_all (map (make_json_serializable bi) xs))"
| "make_json_serializable bi v = Some v"


text \<open>\<open>on_siminfo_received\<close>. \<open>now1\<close> and \<open>now2\<close> are the two readings of the
  clock: the first stamps the successful update, the second is compared with the last
  push. A conversion that raises ends the handler where it stands (the exception is
  caught by the dispatching \<open>emit\<close>).\<close>

definition siminfo_record ::
  "builtins \<Rightarrow> pyval \<Rightarrow> pyval \<Rightarrow> pyval \<Rightarrow> pyval \<Rightarrow> pyval \<Rightarrow> pyval \<Rightarrow> pyval \<Rightarrow> string
     \<Rightarrow> pyval option" where
  "siminfo_record bi speed simdt simt simutc ntraf state scenname sender_id_str =
     (let flt = (\<lambda>v. if v = VNone then Some 0 else py_float bi v);
          int = (\<lambda>v. if v = VNone then Some 0 else py_int bi v);
          str = (\<lambda>v. if v = VNone then [] else py_str bi v)
      in case (flt speed, flt simdt, flt simt, int ntraf, int state) of
           (Some sp, Some dt, Some t, Some n, Some st) \<Rightarrow>
             Some (VDict [(VStr ''speed'', VFloat sp), (VStr ''simdt'', VFloat dt),
                          (VStr ''simt'', VFloat t), (VStr ''simutc'', VStr (str simutc)),
                          (VStr ''ntraf'', VInt n), (VStr ''state'', VInt st),
                          (VStr ''scenname'', VStr (str scenname)),
                          (VStr ''sender_id'', VStr sender_id_str)])
         | _ \<Rightarrow> None)"

definition update_node ::
  "string \<Rightarrow> pyval \<Rightarrow> string \<Rightarrow> (string \<times> node_info) list \<Rightarrow> (string \<times> node_info) list" where
  "update_node key status time tracked =
     map (\<lambda>kv. if fst kv = key then (fst kv, (snd kv)\<lparr>ni_status := status, ni_time := time\<rparr>) else kv)
       tracked"

definition push_siminfo :: "builtins \<Rightarrow> real \<Rightarrow> pyval \<Rightarrow> proxy \<Rightarrow> proxy" where
  "push_siminfo bi now sim q =
     (if has_consumers q \<and> siminfo_interval q \<le> float_sub bi now (last_siminfo_emit q)
      then (emit (Emit ''siminfo'' sim) q)\<lparr>last_siminfo_emit := now\<rparr>
      else q)"

definition on_siminfo_received ::
  "builtins \<Rightarrow> real \<Rightarrow> real \<Rightarrow> pyval \<Rightarrow> pyval \<Rightarrow> pyval \<Rightarrow> pyval \<Rightarrow> pyval \<Rightarrow> pyval \<Rightarrow> pyval
     \<Rightarrow> bytes \<Rightarrow> proxy \<Rightarrow> proxy" where
  "on_siminfo_received bi now1 now2 speed simdt simt simutc ntraf state scenname sender_id p =
     (if \<not> allow_reconnection p then p
      else
        (let sender_id_str = hex sender_id;
             p1 = p\<lparr>last_successful_update := now1\<rparr>
         in case siminfo_record bi speed simdt simt simutc ntraf state scenname sender_id_str of
              None \<Rightarrow> p1
            | Some sim \<Rightarrow>
                (let p2 = p1\<lparr>sim_data := sim\<rparr>
                 in if sender_id_str \<noteq> [] \<and> sender_id_str \<in> set (map fst (tracked_nodes p2)) then
                      (case (if simt = VNone then Some ''00:00:00''
                             else map_option (\<lambda>t. take (length t - 3) t) (tim2txt bi simt)) of
                         None \<Rightarrow> p2
                       | Some simt_str \<Rightarrow>
                           (let p3 = p2\<lparr>tracked_nodes :=
                                         update_node sender_id_str
                                           (if truthy scenname then scenname else VStr ''init'')
                                           simt_str (tracked_nodes p2)\<rparr>
                            in case py_int bi (if truthy simt then simt else VInt 0) of
                                 None \<Rightarrow> p3
                               | Some secs \<Rightarrow>
                                   push_siminfo bi now2 sim
                                     (if secs mod 5 = 0 then emit_node_info p3 else p3)))
                    else push_siminfo bi now2 sim p2)))"

text \<open>\<open>on_acdata_received\<close>: under a reset or active-change context the table is
  cleared and the cleared table pushed at once; otherwise the value is cached and its
  push throttled.\<close>

definition cleared_traffic_data :: pyval where
  "cleared_traffic_data =
     VDict [(VStr ''id'', VList []), (VStr ''lat'', VList []), (VStr ''actype'', VList []),
            (VStr ''lon'', VList []), (VStr ''alt'', VList []), (VStr ''tas'', VList []),
            (VStr ''trk'', VList []), (VStr ''vs'', VList []), (VStr ''inconf'', VList []),
            (VStr ''tcpamax'', VList []), (VStr ''nconf_cur'', VInt 0),
            (VStr ''nconf_tot'', VInt 0), (VStr ''nlos_cur'', VInt 0), (VStr ''nlos_tot'', VInt 0)]"

definition reset_context :: "proxy \<Rightarrow> bool" where
  "reset_context p =
     (case bluesky_client p of
        None \<Rightarrow> False
      | Some c \<Rightarrow> ctx_action c = VStr ''RESET'' \<or> ctx_action c = VStr ''ACTCHANGE'')"

definition on_acdata_received :: "builtins \<Rightarrow> real \<Rightarrow> real \<Rightarrow> pyval \<Rightarrow> proxy \<Rightarrow> proxy" where
  "on_acdata_received bi now1 now2 data p =
     (if \<not> allow_reconnection p then p
      else if reset_context p then
        (let p1 = p\<lparr>traffic_data := cleared_traffic_data\<rparr>
         in if has_consumers p1 then emit (Emit ''acdata'' cleared_traffic_data) p1 else p1)
      else
        (let p1 = p\<lparr>last_successful_update := now1\<rparr>
         in case make_json_serializable bi data of
              None \<Rightarrow> p1
            | Some serializable_data \<Rightarrow>
                (let p2 = p1\<lparr>traffic_data := serializable_data\<rparr>
                 in if has_consumers p2
                       \<and> acdata_interval p2 \<le> float_sub bi now2 (last_acdata_emit p2)
                    then (emit (Emit ''acdata'' serializable_data) p2)\<lparr>last_acdata_emit := now2\<rparr>
                    else p2)))"

text \<open>The \<open>echo\<close> handler: no throttling.\<close>

definition echo_record :: "builtins \<Rightarrow> real \<Rightarrow> pyval \<Rightarrow> pyval \<Rightarrow> pyval \<Rightarrow> pyval option" where
  "echo_record bi now text flags sender_id =
     (let formatted_text = (if text = VNone then [] else py_str bi text);
          sender = (case sender_id of
                      VNone \<Rightarrow> VNone
                    | VBytes b \<Rightarrow> VStr (safe_decode b)
                    | _ \<Rightarrow> VStr (py_str bi sender_id))
      in case (if flags = VNone then Some 0 else py_int bi flags) of
           None \<Rightarrow> None
         | Some fl \<Rightarrow>
             Some (VDict [(VStr ''text'', VStr formatted_text), (VStr ''flags'', VInt fl),
                          (VStr ''timestamp'', VFloat now), (VStr ''sender'', sender)]))"

definition echo :: "builtins \<Rightarrow> real \<Rightarrow> real \<Rightarrow> pyval \<Rightarrow> pyval \<Rightarrow> pyval \<Rightarrow> proxy \<Rightarrow> proxy" where
  "echo bi now1 now2 text flags sender_id p =
     (if \<not> allow_reconnection p then p
      else
        (let p1 = p\<lparr>last_successful_update := now1\<rparr>
         in case echo_record bi now2 text flags sender_id of
              None \<Rightarrow> p1
            | Some echo_data' \<Rightarrow>
                (let p2 = p1\<lparr>echo_data := echo_data'\<rparr>
                 in if has_consumers p2 then emit (Emit ''echo'' echo_data') p2 else p2)))"


subsection \<open>Shape handlers (proxy/handlers/shapes.py)\<close>

text \<open>Dicts keep their keys in insertion order: \<open>d.update(items)\<close> overwrites the value of
  a key that is present, where it stands, and appends a key that is new.\<close>

definition dict_update :: "(pyval \<times> pyval) list \<Rightarrow> (pyval \<times> pyval) list \<Rightarrow> (pyval \<times> pyval) list" where
  "dict_update d items = foldl (\<lambda>d' kv. AList.update (fst kv) (snd kv) d') d items"















text \<open>The steps of \<open>on_poly_received\<close>: the storage of a sender is initialised, the
  action type is read off a list-shaped message, the separated shapes replace or are
  merged into the stored ones, and both stores are cut down to five entries.\<close>

definition empty_shapes :: pyval where
  "empty_shapes = VDict [(VStr ''polys'', VDict [])]"












text \<open>The sender of the frame being handled, as the handler reads it from the client's
  context, and the push of the stored shapes of the active node.\<close>

definition context_sender :: "proxy \<Rightarrow> string option" where
  "context_sender p =
     (case bluesky_client p of
        None \<Rightarrow> None
      | Some c \<Rightarrow>
          (case ctx_sender_id c of
             None \<Rightarrow> None
           | Some b \<Rightarrow> if b = [] then None else Some (hex b)))"

definition emit_shapes :: "string \<Rightarrow> proxy \<Rightarrow> proxy" where
  "emit_shapes sid p =
     (if sid \<noteq> [] \<and> get_safe_active_node p = Some sid \<and> socketio p then
        emit (Emit ''polyline''
                (case map_of (polyline_data_by_node p) sid of Some v \<Rightarrow> v | None \<Rightarrow> empty_shapes))
          (emit (Emit ''poly''
                   (case map_of (poly_data_by_node p) sid of Some v \<Rightarrow> v | None \<Rightarrow> empty_shapes)) p)
      else p)"




section \<open>Identity round trip and identity length\<close>

lemma uint_byte_of_int: "0 \<le> i \<Longrightarrow> i \<le> 255 \<Longrightarrow> uint (word_of_int i :: byte) = i"
  by (simp add: uint_word_of_int take_bit_int_eq_self)

lemma seqid2idx_chr_charmap:
  "chr_charmap v = Inr b \<Longrightarrow> seqid2idx (SBytes b) = Inr (max (- 1) (v - 128))"
  using uint_byte_of_int [of v]
  by (auto simp: chr_charmap_def split: if_splits)

lemma identity_roundtrip_iff: "identity_roundtrip i \<longleftrightarrow> - 1 \<le> i \<and> i \<le> 127"
proof (cases "seqidx2id i")
  case (Inl e)
  then show ?thesis
    by (auto simp: identity_roundtrip_def seqidx2id_def chr_charmap_def split: if_splits)
next
  case (Inr b)
  then have "seqid2idx (SBytes b) = Inr (max (- 1) i)"
    using seqid2idx_chr_charmap [of "128 + i" b] by (simp add: seqidx2id_def)
  moreover have "i \<le> 127"
    using Inr by (auto simp: seqidx2id_def chr_charmap_def split: if_splits)
  ultimately show ?thesis
    using Inr by (auto simp: identity_roundtrip_def)
qed

lemma asbytestr_group_tag: "group_tag g \<Longrightarrow> \<exists>b. asbytestr g = Inr b"
  by (cases g) (auto simp: chr_charmap_def)

lemma length_seqidx2id: "seqidx2id i = Inr s \<Longrightarrow> length s = 1"
  by (auto simp: seqidx2id_def chr_charmap_def split: if_splits)

lemma genid_length_any:
  "genid rnd g i = Inr bs \<Longrightarrow> length bs = IDLEN"
  by (auto simp: genid_def IDLEN_def Let_def urandom_def replace_wildcard_def
      split: sum.splits if_splits dest!: length_seqidx2id)

text \<open>
  C4. For every sequence index in the valid range (\<open>-1\<close>, the "no index" marker, up to
  \<open>127\<close>) encoding succeeds and decoding the encoded sequence byte gives the index back;
  for every group tag \<open>genid\<close> (with its default sequence index 1) returns an
  identity, and that identity has exactly \<open>IDLEN = 5\<close> bytes.
\<close>

theorem C4_identity_roundtrip_and_length:
  "(- 1 \<le> i \<and> i \<le> 127 \<longrightarrow>
      (\<exists>b. seqidx2id i = Inr b \<and> seqid2idx (SBytes b) = Inr i))
   \<and> (group_tag g \<longrightarrow> (\<exists>bs. genid rnd g 1 = Inr bs \<and> length bs = IDLEN \<and> IDLEN = 5))"
proof (intro conjI impI)
  assume "- 1 \<le> i \<and> i \<le> 127"
  then have "identity_roundtrip i" by (simp add: identity_roundtrip_iff)
  then show "\<exists>b. seqidx2id i = Inr b \<and> seqid2idx (SBytes b) = Inr i"
    by (cases "seqidx2id i") (simp_all add: identity_roundtrip_def)
next
  assume "group_tag g"
  then obtain b where b: "asbytestr g = Inr b" using asbytestr_group_tag by blast
  have "\<exists>bs. genid rnd g 1 = Inr bs"
    using b by (auto simp: genid_def Let_def seqidx2id_def chr_charmap_def)
  then show "\<exists>bs. genid rnd g 1 = Inr bs \<and> length bs = IDLEN \<and> IDLEN = 5"
    using genid_length_any by (auto simp: IDLEN_def)
qed

theorem C4_identity_roundtrip_and_length_witness:
  "seqidx2id 3 = Inr [131] \<and> seqid2idx (SBytes [131]) = Inr 3
   \<and> genid (\<lambda>n. 42) (PInt 67) 1 = Inr [67, 95, 95, 95, 129]"
proof -
  have "seqidx2id 3 = Inr [131]"
    by (simp add: seqidx2id_def chr_charmap_def)
  moreover have "seqid2idx (SBytes [131]) = Inr 3"
    by simp
  moreover have "genid (\<lambda>n. 42) (PInt 67) 1 = Inr [67, 95, 95, 95, 129]"
    using C4_identity_roundtrip_and_length [of 3 "PInt 67" "\<lambda>n. 42"]
    by (simp add: genid_def chr_charmap_def seqidx2id_def IDLEN_def urandom_def
        replace_wildcard_def WILDCARD_def UNDERSCORE_def Let_def upt_rec)
  ultimately show ?thesis by simp
qed

section \<open>Subscription keys of subscribe and unsubscribe\<close>

text \<open>The source group after the default has been resolved: \<open>actonly\<close> is the flag of
  \<open>_subscribe\<close>; \<open>_unsubscribe\<close> takes the topic's presence in the registry in its
  place.\<close>

definition resolved_from :: "client \<Rightarrow> pydata \<Rightarrow> bool \<Rightarrow> pydata option" where
  "resolved_from c from_group actonly =
     (if from_group = PInt GROUPID_DEFAULT then
        (if actonly then map_option PBytes (act_id c) else Some (PInt GROUPID_SIM))
      else Some from_group)"

definition expected_keys :: "client \<Rightarrow> string \<Rightarrow> pydata \<Rightarrow> pydata \<Rightarrow> bool \<Rightarrow> bytes list" where
  "expected_keys c topic from_group to_group actonly =
     (if \<not> sock_recv c then []
      else case resolved_from c from_group actonly of
             None \<Rightarrow> []
           | Some f \<Rightarrow>
               (case (asbytestr to_group, asbytestr f) of
                  (Inr bto, Inr bfrom) \<Rightarrow> [ljust IDLEN WILDCARD bto @ encode_charmap topic @ bfrom]
                | _ \<Rightarrow> []))"

text \<open>A connected client that has discovered two simulation nodes, and the same
  client with the first of them active.\<close>

definition example_client :: client where
  "example_client =
     (snd (connect True 4 NoFailure (init_client [67, 1, 2, 3, 129] [67, 1, 2, 3, 128])))
       \<lparr>nodes := {[83, 1, 2, 3, 129], [83, 1, 2, 3, 130]}\<rparr>"

definition active_client :: client where
  "active_client = example_client\<lparr>act_id := Some [83, 1, 2, 3, 129]\<rparr>"

lemma issued_journal [simp]: "issued c (journal e c) = [e]"
  by (simp add: issued_def journal_def)

lemma issued_self [simp]: "issued c c = []"
  by (simp add: issued_def)

lemma issued_journal_acttopics [simp]: "issued c (journal e (c\<lparr>acttopics := r\<rparr>)) = [e]"
  by (simp add: issued_def journal_def)

lemma issued_acttopics [simp]: "issued c (c\<lparr>acttopics := r\<rparr>) = []"
  by (simp add: issued_def)

lemma issued_keys_subscribe:
  "issued_keys c (subscribe_low topic from_group to_group actonly c) =
     expected_keys c topic from_group to_group actonly"
  by (auto simp: issued_keys_def subscribe_low_def resolved_from_def setsockopt_key_def Let_def
      expected_keys_def subscription_key_def
      split: option.splits sum.splits)

lemma issued_keys_unsubscribe:
  "issued_keys c (unsubscribe_low topic from_group to_group c) =
     expected_keys c topic from_group to_group (in_registry topic (acttopics c))"
  by (auto simp: issued_keys_def unsubscribe_low_def resolved_from_def setsockopt_key_def Let_def
      expected_keys_def subscription_key_def
      split: option.splits sum.splits)

lemma in_registry_add [simp]: "in_registry t (registry_add t g r)"
  by (induction r) (force simp: in_registry_def)+

lemma subscribe_low_fields:
  "sock_recv (subscribe_low t f g a c) = sock_recv c"
  "act_id (subscribe_low t f g a c) = act_id c"
  "a \<Longrightarrow> f = PInt GROUPID_DEFAULT \<Longrightarrow> sock_recv c \<Longrightarrow>
     acttopics (subscribe_low t f g a c) = registry_add t g (acttopics c)"
  by (auto simp: subscribe_low_def setsockopt_key_def journal_def Let_def
      split: option.splits sum.splits)

lemma expected_keys_cong:
  "sock_recv c' = sock_recv c \<Longrightarrow> act_id c' = act_id c \<Longrightarrow>
   expected_keys c' t f g a = expected_keys c t f g a"
  by (simp add: expected_keys_def resolved_from_def)

lemma unsubscribe_after_actonly_subscribe:
  "issued_keys (subscribe_low topic from_group to_group True c)
      (unsubscribe_low topic from_group to_group (subscribe_low topic from_group to_group True c))
   = issued_keys c (subscribe_low topic from_group to_group True c)"
proof (cases "from_group = PInt GROUPID_DEFAULT \<and> sock_recv c")
  case True
  have "expected_keys (subscribe_low topic from_group to_group True c) topic from_group to_group True
        = expected_keys c topic from_group to_group True"
    by (rule expected_keys_cong) (simp_all add: subscribe_low_fields)
  with True show ?thesis
    by (simp add: issued_keys_subscribe issued_keys_unsubscribe subscribe_low_fields)
next
  case False
  then show ?thesis
    by (auto simp add: issued_keys_subscribe issued_keys_unsubscribe subscribe_low_fields
        expected_keys_def resolved_from_def)
qed

lemma active_client_subscribe_actonly:
  "issued_keys active_client
     (subscribe_low ''ACDATA'' (PInt GROUPID_DEFAULT) (PStr []) True active_client)
   = [[42, 42, 42, 42, 42, 65, 67, 68, 65, 84, 65, 83, 1, 2, 3, 129]]"
  by code_simp

lemma active_client_unsubscribe:
  "issued_keys active_client
     (unsubscribe_low ''ACDATA'' (PInt GROUPID_DEFAULT) (PStr []) active_client)
   = [[42, 42, 42, 42, 42, 65, 67, 68, 65, 84, 65, 83]]"
  by code_simp

text \<open>
  C5, as stated: in one and the same client state and for the same topic, source group
  and addressee, \<open>_subscribe\<close> and \<open>_unsubscribe\<close> hand the same key to the socket.
  This fails: with an active node set and a topic not yet in the active-only registry,
  an active-only subscribe with the default source group builds the key that ends in
  the active node's identity, the unsubscribe the key that ends in the simulation group
  byte.
\<close>

theorem C5_key_symmetry_counterexample:
  "issued_keys active_client
       (subscribe_low ''ACDATA'' (PInt GROUPID_DEFAULT) (PStr []) True active_client)
     \<noteq> issued_keys active_client
       (unsubscribe_low ''ACDATA'' (PInt GROUPID_DEFAULT) (PStr []) active_client)"
  by (simp add: active_client_subscribe_actonly active_client_unsubscribe)

text \<open>
  C5, amended: in one client state and for the same topic, source group and addressee,
  the two operations build the same key whenever the source group is not the default
  group, or the active-only flag of the subscribe agrees with the topic's presence in
  the active-only registry at the unsubscribe. The key, when one is built, is the
  addressee left-justified to \<open>IDLEN\<close> with the wildcard byte, then the topic bytes, then
  the bytes of the resolved source group; when none is built (no receiving socket, no
  active node for an active-only topic, an addressee or group that does not encode)
  neither operation builds one.
\<close>

theorem C5_key_symmetry:
  assumes "from_group \<noteq> PInt GROUPID_DEFAULT \<or> actonly = in_registry topic (acttopics c)"
  shows "issued_keys c (subscribe_low topic from_group to_group actonly c)
           = issued_keys c (unsubscribe_low topic from_group to_group c)
         \<and> issued_keys c (subscribe_low topic from_group to_group actonly c)
           = expected_keys c topic from_group to_group actonly"
  using assms
  by (auto simp: issued_keys_subscribe issued_keys_unsubscribe expected_keys_def resolved_from_def)

theorem C5_key_symmetry_witness:
  "issued_keys active_client
     (subscribe_low ''SIMINFO'' (PInt GROUPID_DEFAULT) (PStr []) False active_client)
     = [[42, 42, 42, 42, 42, 83, 73, 77, 73, 78, 70, 79, 83]]
   \<and> issued_keys active_client
     (unsubscribe_low ''SIMINFO'' (PInt GROUPID_DEFAULT) (PStr []) active_client)
     = [[42, 42, 42, 42, 42, 83, 73, 77, 73, 78, 70, 79, 83]]"
proof -
  have reg: "False = in_registry ''SIMINFO'' (acttopics active_client)"
    by code_simp
  have sub: "issued_keys active_client
     (subscribe_low ''SIMINFO'' (PInt GROUPID_DEFAULT) (PStr []) False active_client)
     = [[42, 42, 42, 42, 42, 83, 73, 77, 73, 78, 70, 79, 83]]"
    by code_simp
  from C5_key_symmetry [of "PInt GROUPID_DEFAULT" False "''SIMINFO''" active_client "PStr []"] reg
  have "issued_keys active_client
     (subscribe_low ''SIMINFO'' (PInt GROUPID_DEFAULT) (PStr []) False active_client)
     = issued_keys active_client
     (unsubscribe_low ''SIMINFO'' (PInt GROUPID_DEFAULT) (PStr []) active_client)"
    by blast
  with sub show ?thesis by simp
qed

section \<open>The safe active-node accessor\<close>

text \<open>A running proxy with a connected client, two tracked nodes, the first one active
  and one consumer on the event channel.\<close>

definition example_node :: "bytes \<Rightarrow> node_info" where
  "example_node n =
     \<lparr>ni_node_id = n, ni_node_num = uint (last n) - 128, ni_server_id = butlast n @ [128],
      ni_status = VStr ''init'', ni_time = ''00:00:00''\<rparr>"

definition example_proxy :: proxy where
  "example_proxy =
     (init_proxy 0)
       \<lparr>bluesky_client := Some active_client, proxy_running := True, socketio := True,
        allow_reconnection := True, was_connected := True, connected_clients := 1,
        tracked_nodes := [(''5301020381'', example_node [83, 1, 2, 3, 129]),
                          (''5301020382'', example_node [83, 1, 2, 3, 130])],
        tracked_servers := [[83, 1, 2, 3, 128]]\<rparr>"

text \<open>
  C9. The accessor returns an identifier exactly when the proxy is running, was
  connected, tracks at least one node, a protocol client exists whose active id is set,
  and the hex form of that id is a key of the tracked nodes; the identifier returned is
  that hex form. In every other state it returns none.
\<close>

theorem C9_safe_active_node:
  "(get_safe_active_node p = Some s \<longleftrightarrow>
      proxy_running p \<and> was_connected p \<and> tracked_nodes p \<noteq> []
      \<and> (\<exists>c a. bluesky_client p = Some c \<and> act_id c = Some a \<and> a \<noteq> []
             \<and> s = hex a \<and> hex a \<in> fst ` set (tracked_nodes p)))
   \<and> (\<not> (proxy_running p \<and> was_connected p \<and> tracked_nodes p \<noteq> []
           \<and> (\<exists>c a. bluesky_client p = Some c \<and> act_id c = Some a \<and> a \<noteq> []
                  \<and> hex a \<in> fst ` set (tracked_nodes p)))
        \<longrightarrow> get_safe_active_node p = None)"
  by (auto simp: get_safe_active_node_def Let_def split: option.splits)

theorem C9_safe_active_node_witness:
  "get_safe_active_node example_proxy = Some ''5301020381''
   \<and> get_safe_active_node (example_proxy\<lparr>was_connected := False\<rparr>) = None
   \<and> get_safe_active_node (example_proxy\<lparr>tracked_nodes := []\<rparr>) = None"
proof -
  have a: "get_safe_active_node example_proxy = Some ''5301020381''"
    by code_simp
  have "\<not> was_connected (example_proxy\<lparr>was_connected := False\<rparr>)"
    by simp
  with C9_safe_active_node [of "example_proxy\<lparr>was_connected := False\<rparr>" "''5301020381''"]
  have b: "get_safe_active_node (example_proxy\<lparr>was_connected := False\<rparr>) = None"
    by blast
  have "tracked_nodes (example_proxy\<lparr>tracked_nodes := []\<rparr>) = []"
    by simp
  with C9_safe_active_node [of "example_proxy\<lparr>tracked_nodes := []\<rparr>" "''5301020381''"]
  have c: "get_safe_active_node (example_proxy\<lparr>tracked_nodes := []\<rparr>) = None"
    by blast
  from a b c show ?thesis by simp
qed

section \<open>The poll loop's transition to disconnected\<close>

text \<open>The state the disconnection leaves behind: connection marked unhealthy, node and
  server sets cleared, snapshots cleared, and the protocol client that the state holds
  stopped, disconnected and with its registries cleared. And the client's transport
  released: both sockets, the poller and the context.\<close>

definition disconnected_after :: "proxy \<Rightarrow> bool" where
  "disconnected_after p' \<longleftrightarrow>
     \<not> was_connected p' \<and> \<not> proxy_running p' \<and> \<not> allow_reconnection p'
     \<and> tracked_nodes p' = [] \<and> tracked_servers p' = []
     \<and> traffic_data p' = VDict [] \<and> sim_data p' = VDict [] \<and> echo_data p' = VDict []
     \<and> poly_data_by_node p' = [] \<and> polyline_data_by_node p' = []
     \<and> (case bluesky_client p' of
           None \<Rightarrow> True
         | Some c \<Rightarrow> \<not> running c \<and> \<not> connected c \<and> nodes c = {} \<and> servers c = {}
                      \<and> acttopics c = [] \<and> act_id c = None)"

definition transport_released :: "proxy \<Rightarrow> bool" where
  "transport_released p' \<longleftrightarrow>
     (case bluesky_client p' of
        None \<Rightarrow> True
      | Some c \<Rightarrow> \<not> sock_recv c \<and> \<not> sock_send c \<and> \<not> poller c \<and> \<not> zmq_context c)"

text \<open>The events a step pushed: what it appended to the channel's journal.\<close>

definition pushed :: "proxy \<Rightarrow> proxy \<Rightarrow> event list" where
  "pushed p p' = drop (length (emitted p)) (emitted p')"

text \<open>The condition of the claim, on the state \<open>p1\<close> that \<open>update()\<close> leaves: the
  proxy was connected, no node is tracked, and the last successful update is older than
  the connection timeout.\<close>

definition disconnect_due :: "builtins \<Rightarrow> real \<Rightarrow> proxy \<Rightarrow> bool" where
  "disconnect_due bi current_time p1 \<longleftrightarrow>
     was_connected p1 \<and> tracked_nodes p1 = []
     \<and> connection_timeout p1 < float_sub bi current_time (last_successful_update p1)"

text \<open>What the disconnection pushes, with the clock readings of the status event and of
  the \<open>server_disconnected\<close> event.\<close>

definition disconnect_events :: "string \<Rightarrow> real \<Rightarrow> real \<Rightarrow> event list" where
  "disconnect_events ip t1 t2 =
     [connection_status False ip t1,
      Emit ''acdata'' empty_traffic_data, Emit ''siminfo'' empty_sim_data,
      Emit ''poly'' empty_shape_data, Emit ''polyline'' empty_shape_data,
      server_disconnected t2, NodeInfo [] [] None 0]"

lemma emit_fields [simp]:
  "was_connected (emit e p) = was_connected p"
  "socketio (emit e p) = socketio p"
  "connected_clients (emit e p) = connected_clients p"
  "bluesky_client (emit e p) = bluesky_client p"
  "proxy_running (emit e p) = proxy_running p"
  "allow_reconnection (emit e p) = allow_reconnection p"
  "server_ip (emit e p) = server_ip p"
  "emitted (emit e p) = emitted p @ [e]"
  by (simp_all add: emit_def)

lemma close_fields [simp]:
  "running (close f c) = False" "connected (close f c) = False" "nodes (close f c) = {}"
  "servers (close f c) = {}" "acttopics (close f c) = []" "act_id (close f c) = None"
  by (simp_all add: close_def teardown_def Let_def)

lemma close_releases [simp]:
  "sock_recv (close NoFailure c) = False" "sock_send (close NoFailure c) = False"
  "poller (close NoFailure c) = False" "zmq_context (close NoFailure c) = False"
  by (simp_all add: close_def teardown_def Let_def)

lemma disconnected_after_close_connection:
  "\<not> proxy_running p \<Longrightarrow> poly_data_by_node p = [] \<Longrightarrow> polyline_data_by_node p = [] \<Longrightarrow>
   disconnected_after (close_connection f t p)"
  by (auto simp: disconnected_after_def close_connection_def Let_def split: option.splits)

lemma handle_disconnection_disconnected:
  "disconnected_after (handle_disconnection f t1 t2 t3 p)"
  unfolding handle_disconnection_def Let_def
  by (rule disconnected_after_close_connection)
     (simp_all add: emit_node_info_def emit_cleared_data_def emit_def emit_connection_status_def)

lemma handle_disconnection_released:
  "transport_released (handle_disconnection NoFailure t1 t2 t3 p)"
  by (auto simp: transport_released_def handle_disconnection_def close_connection_def Let_def
      split: option.splits)

lemma emitted_close_connection [simp]:
  "emitted (close_connection f t p) = emitted p"
  by (simp add: close_connection_def Let_def)

lemma has_consumers_upd [simp]:
  "has_consumers (p\<lparr>was_connected := w\<rparr>) = has_consumers p"
  "has_consumers (p\<lparr>connection_failures := n\<rparr>) = has_consumers p"
  "has_consumers (emit e p) = has_consumers p"
  by (simp_all add: has_consumers_def)

lemma emitted_handle_disconnection:
  "emitted (handle_disconnection f t1 t2 t3 p) =
     emitted p
     @ (if has_consumers p
        then (if was_connected p then [connection_status False (server_ip p) t1] else [])
             @ [Emit ''acdata'' empty_traffic_data, Emit ''siminfo'' empty_sim_data,
                Emit ''poly'' empty_shape_data, Emit ''polyline'' empty_shape_data,
                server_disconnected t2, NodeInfo [] [] None 0]
        else [])"
  by (simp add: handle_disconnection_def Let_def emit_node_info_def emit_cleared_data_def
      emit_connection_status_def has_consumers_def get_safe_active_node_def emit_def
      split: option.splits)

lemma pushed_append [simp]: "emitted p' = emitted p @ es \<Longrightarrow> pushed p p' = es"
  by (simp add: pushed_def)

lemma active_client_transport:
  "running active_client" "connected active_client" "poller active_client"
  "sock_recv active_client" "sock_send active_client" "zmq_context active_client"
  by code_simp+

lemma example_proxy_update:
  "client_update ok id (example_proxy\<lparr>tracked_nodes := tn, connected_clients := n\<rparr>)
     = (ok, example_proxy\<lparr>tracked_nodes := tn, connected_clients := n\<rparr>)"
  "client_update ok id (example_proxy\<lparr>tracked_nodes := tn\<rparr>) = (ok, example_proxy\<lparr>tracked_nodes := tn\<rparr>)"
  "client_update ok id example_proxy = (ok, example_proxy)"
  by (simp_all add: client_update_def example_proxy_def active_client_transport)

text \<open>The tick of a proxy that is due: the state that \<open>update()\<close> left, with the
  failure count reset and the status event pushed, is handed to the disconnection.\<close>

lemma tick_due:
  assumes "proxy_running p" and "allow_reconnection p" and "bluesky_client p \<noteq> None"
    and "disconnect_due bi (clock 0) (snd (client_update ok process p))"
  shows "network_timer_callback bi ok process f clock p
           = (handle_disconnection f (clock 2) (clock 3) (clock 4)
                (emit_connection_status (clock 1) False
                   ((snd (client_update ok process p))
                      \<lparr>connection_failures := 0, was_connected := False\<rparr>)),
              False)"
  using assms by (simp add: network_timer_callback_def Let_def disconnect_due_def)

text \<open>Whatever \<open>update()\<close> returns, a tick that runs leaves the failure count at zero.\<close>

lemma tick_resets_failures:
  assumes "proxy_running p" and "allow_reconnection p" and "bluesky_client p \<noteq> None"
  shows "connection_failures (fst (network_timer_callback bi ok process f clock p)) = 0"
proof -
  have h: "connection_failures (handle_disconnection f t1 t2 t3 q) = 0" for t1 t2 t3 q
    by (simp add: handle_disconnection_def close_connection_def Let_def emit_node_info_def
        emit_cleared_data_def emit_connection_status_def emit_def)
  show ?thesis
    using assms
    by (simp add: network_timer_callback_def Let_def h emit_connection_status_def emit_def)
qed

text \<open>A running, connected proxy whose nodes are gone and that nobody watches; a clock
  that reads 20 and one that reads 1; a tick whose transport fails.\<close>

definition unwatched_proxy :: proxy where
  "unwatched_proxy = example_proxy\<lparr>tracked_nodes := [], connected_clients := 0\<rparr>"

definition clock_20 :: "nat \<Rightarrow> real" where
  "clock_20 k = 20"

definition clock_1 :: "nat \<Rightarrow> real" where
  "clock_1 k = 1"

definition failing_tick :: "proxy \<Rightarrow> proxy" where
  "failing_tick p = fst (network_timer_callback sample_builtins False id NoFailure clock_1 p)"

text \<open>
  C3, as stated, promises a disconnect notification, a closed client and a
  disconnection once the transport has failed more often than the maximum.
  \<^item> Every push stands behind the guard \<open>socketio and connected_clients > 0\<close>: a proxy
    that was connected, has lost its nodes and has been silent for 20 seconds (timeout
    10) disconnects without pushing anything when no consumer is connected.
  \<^item> \<open>close()\<close> runs the teardown of the transport inside a \<open>try\<close>: when closing the
    receiving socket raises, the disconnection completes and the socket is left open.
  \<^item> A failing transport makes \<open>update()\<close> return \<open>False\<close>, and the tick resets the
    failure count after every call: after four ticks with a failing transport (maximum
    3) the proxy still runs, counts no failure and has scheduled the next tick.
\<close>

theorem C3_disconnect_counterexample:
  "proxy_running unwatched_proxy \<and> was_connected unwatched_proxy
   \<and> disconnect_due sample_builtins 20 unwatched_proxy
   \<and> pushed unwatched_proxy
        (fst (network_timer_callback sample_builtins True id NoFailure clock_20 unwatched_proxy)) = []
   \<and> disconnected_after
        (fst (network_timer_callback sample_builtins True id CloseRecv clock_20 unwatched_proxy))
   \<and> \<not> transport_released
        (fst (network_timer_callback sample_builtins True id CloseRecv clock_20 unwatched_proxy))
   \<and> max_connection_failures example_proxy = 3
   \<and> failing_tick (failing_tick (failing_tick (failing_tick example_proxy))) = example_proxy
   \<and> proxy_running example_proxy \<and> connection_failures example_proxy = 0
   \<and> snd (network_timer_callback sample_builtins False id NoFailure clock_1 example_proxy)"
proof -
  have c: "client_update ok id example_proxy = (ok, example_proxy)"
    "client_update ok id unwatched_proxy = (ok, unwatched_proxy)" for ok
    by (simp_all add: unwatched_proxy_def example_proxy_update)
  have t: "network_timer_callback sample_builtins False id NoFailure clock_1 example_proxy
             = (example_proxy, True)"
    by (simp add: network_timer_callback_def c Let_def)
       (simp add: example_proxy_def init_proxy_def sample_builtins_def clock_1_def)
  have d: "disconnect_due sample_builtins 20 unwatched_proxy"
    by (simp add: disconnect_due_def unwatched_proxy_def example_proxy_def init_proxy_def
        sample_builtins_def)
  have r: "proxy_running unwatched_proxy" "allow_reconnection unwatched_proxy"
    "bluesky_client unwatched_proxy \<noteq> None" "was_connected unwatched_proxy"
    "\<not> has_consumers unwatched_proxy"
    "proxy_running example_proxy" "connection_failures example_proxy = 0"
    "max_connection_failures example_proxy = 3"
    by (simp_all add: unwatched_proxy_def example_proxy_def init_proxy_def has_consumers_def)
  have d': "disconnect_due sample_builtins (clock_20 0)
              (snd (client_update True id unwatched_proxy))"
    using d by (simp add: c clock_20_def)
  note k = tick_due [where p = unwatched_proxy and bi = sample_builtins and clock = clock_20
      and ok = True and process = id, OF r(1-3) d']
  have p0: "pushed unwatched_proxy
        (fst (network_timer_callback sample_builtins True id NoFailure clock_20 unwatched_proxy)) = []"
    using r(5)
    by (simp add: k c emitted_handle_disconnection emit_connection_status_def pushed_def)
  have o: "\<not> transport_released
        (fst (network_timer_callback sample_builtins True id CloseRecv clock_20 unwatched_proxy))"
    by (simp add: k c)
       (simp add: transport_released_def handle_disconnection_def close_connection_def Let_def
          emit_connection_status_def unwatched_proxy_def example_proxy_def init_proxy_def
          has_consumers_def close_def teardown_def active_client_transport)
  have da: "disconnected_after
        (fst (network_timer_callback sample_builtins True id CloseRecv clock_20 unwatched_proxy))"
    by (simp add: k handle_disconnection_disconnected)
  show ?thesis
    using d r p0 o da by (simp add: failing_tick_def t)
qed

text \<open>
  C3, amended. On a tick of the running poll loop, let \<open>p1\<close> be the state that
  \<open>update()\<close> leaves. If the proxy was connected, no node is tracked and the last
  successful update is older than the connection timeout, the tick leaves the proxy
  disconnected: unhealthy and stopped, node and server sets empty, traffic, sim, echo
  and per-node shape snapshots empty, the protocol client stopped and disconnected with
  its registries cleared, and, when no step of the client's teardown raises, both
  sockets, the poller and the context released; no further tick is scheduled; and the
  tick pushes exactly the disconnect notification (a \<open>connection_status\<close> event with
  \<open>connected = False\<close>, the cleared snapshots, a \<open>server_disconnected\<close> event and
  the empty node list) when the event channel is attached and at least one consumer is
  connected, and nothing otherwise.
\<close>

theorem C3_disconnect:
  assumes "proxy_running p" and "allow_reconnection p" and "bluesky_client p \<noteq> None"
    and "disconnect_due bi (clock 0) (snd (client_update ok process p))"
  shows "disconnected_after (fst (network_timer_callback bi ok process f clock p))
         \<and> (f = NoFailure \<longrightarrow>
              transport_released (fst (network_timer_callback bi ok process f clock p)))
         \<and> \<not> snd (network_timer_callback bi ok process f clock p)
         \<and> pushed (snd (client_update ok process p))
              (fst (network_timer_callback bi ok process f clock p))
             = (if has_consumers (snd (client_update ok process p))
                then disconnect_events (server_ip (snd (client_update ok process p)))
                       (clock 1) (clock 3)
                else [])"
  unfolding tick_due [where p = p and bi = bi and clock = clock and ok = ok and process = process
      and f = f, OF assms]
  by (auto simp add: handle_disconnection_disconnected handle_disconnection_released
      emitted_handle_disconnection emit_connection_status_def disconnect_events_def)

theorem C3_disconnect_witness:
  "disconnect_due sample_builtins (clock_20 0) (example_proxy\<lparr>tracked_nodes := []\<rparr>)
   \<and> disconnected_after
       (fst (network_timer_callback sample_builtins True id NoFailure clock_20
               (example_proxy\<lparr>tracked_nodes := []\<rparr>)))
   \<and> transport_released
       (fst (network_timer_callback sample_builtins True id NoFailure clock_20
               (example_proxy\<lparr>tracked_nodes := []\<rparr>)))
   \<and> \<not> snd (network_timer_callback sample_builtins True id NoFailure clock_20
               (example_proxy\<lparr>tracked_nodes := []\<rparr>))
   \<and> pushed (example_proxy\<lparr>tracked_nodes := []\<rparr>)
       (fst (network_timer_callback sample_builtins True id NoFailure clock_20
               (example_proxy\<lparr>tracked_nodes := []\<rparr>)))
     = disconnect_events ''localhost'' 20 20"
proof -
  let ?p = "example_proxy\<lparr>tracked_nodes := []\<rparr>"
  have c: "client_update True id ?p = (True, ?p)"
    by (simp add: example_proxy_update)
  have r: "proxy_running ?p" "allow_reconnection ?p" "bluesky_client ?p \<noteq> None"
    "has_consumers ?p" "server_ip ?p = ''localhost''"
    by (simp_all add: example_proxy_def init_proxy_def has_consumers_def)
  have d: "disconnect_due sample_builtins (clock_20 0) ?p"
    by (simp add: disconnect_due_def example_proxy_def init_proxy_def sample_builtins_def
        clock_20_def)
  then have d': "disconnect_due sample_builtins (clock_20 0) (snd (client_update True id ?p))"
    by (simp add: c)
  from C3_disconnect [where p = ?p and bi = sample_builtins and clock = clock_20 and ok = True
      and process = id and f = NoFailure, OF r(1-3) d'] d r(4,5)
  show ?thesis by (simp add: c clock_20_def)
qed

section \<open>Callback isolation in signal emission and topic dispatch\<close>

text \<open>A runner is ordinary when whatever its callbacks raise is caught and logged: an
  instance of \<open>Exception\<close> that the handler can format. It keeps the list when no
  callback changes the callback list that is being dispatched.\<close>

definition ordinary :: "('cb, 'a, 's) runner \<Rightarrow> bool" where
  "ordinary run \<longleftrightarrow> (\<forall>cb a s e. fst (run cb a s) = Some e \<longrightarrow> propagates e = None)"

definition keeps :: "('cb, 'a, 's) runner \<Rightarrow> ('s \<Rightarrow> 'cb list) \<Rightarrow> bool" where
  "keeps run live \<longleftrightarrow> (\<forall>cb a s. live (snd (run cb a s)) = live s)"

text \<open>Calling every callback of a list once, in the order of the list, each on the
  state its predecessor left: the state this ends in, and the calls with what each
  raised.\<close>

definition all_called :: "('cb, 'a, 's) runner \<Rightarrow> 'cb list \<Rightarrow> 'a \<Rightarrow> 's \<Rightarrow> 's" where
  "all_called run cbs a s = foldl (\<lambda>s' cb. snd (run cb a s')) s cbs"

fun calls :: "('cb, 'a, 's) runner \<Rightarrow> 'cb list \<Rightarrow> 'a \<Rightarrow> 's \<Rightarrow> ('cb \<times> thrown option) list" where
  "calls run [] a s = []"
| "calls run (cb # cbs) a s = (cb, fst (run cb a s)) # calls run cbs a (snd (run cb a s))"

text \<open>Callbacks that log their number in the state; the second one raises after
  logging. And callbacks over a state that also holds their own list: the first one
  takes itself off the list and raises.\<close>

definition raising_runner :: "thrown \<Rightarrow> (nat, unit, nat list) runner" where
  "raising_runner t cb a s = (if cb = 2 then Some t else None, s @ [cb])"

definition three_callbacks :: "nat list \<Rightarrow> nat list" where
  "three_callbacks s = [1, 2, 3]"

definition removing_runner :: "(nat, unit, nat list \<times> nat list) runner" where
  "removing_runner cb a s =
     (if cb = 1 then Some (PyException ''boom'') else None,
      (fst s @ [cb], if cb = 1 then remove1 1 (snd s) else snd s))"

definition registered :: "nat list \<times> nat list \<Rightarrow> nat list" where
  "registered s = snd s"

lemma map_fst_calls: "map fst (calls run cbs a s) = cbs"
  by (induction cbs arbitrary: s) simp_all

lemma signal_emit_all:
  "ordinary run \<Longrightarrow>
   signal_emit run cbs a s = (None, all_called run cbs a s, calls run cbs a s)"
proof (induction cbs arbitrary: s)
  case Nil
  then show ?case by (simp add: all_called_def)
next
  case (Cons cb cbs)
  obtain r s' where run: "run cb a s = (r, s')" by (cases "run cb a s")
  from Cons.IH [OF Cons.prems, of s']
  have ih: "signal_emit run cbs a s' = (None, all_called run cbs a s', calls run cbs a s')" .
  show ?case
  proof (cases r)
    case None
    with run ih show ?thesis by (simp add: all_called_def)
  next
    case (Some e)
    with Cons.prems run have "propagates e = None" unfolding ordinary_def by (metis fst_conv)
    with Some run ih show ?thesis by (simp add: all_called_def)
  qed
qed

lemma subscriber_emit_from_all:
  assumes "ordinary run" and "keeps run live"
  shows "subscriber_emit_from run live a i s tr
           = Some (None, all_called run (drop i (live s)) a s, tr @ calls run (drop i (live s)) a s)"
proof (induction "length (live s) - i" arbitrary: i s tr)
  case 0
  then have "\<not> i < length (live s)" by simp
  then show ?case
    by (subst subscriber_emit_from.simps) (simp add: all_called_def)
next
  case (Suc n)
  then have lt: "i < length (live s)" by simp
  obtain r s1 where run: "run (live s ! i) a s = (r, s1)" by (cases "run (live s ! i) a s")
  have live: "live s1 = live s" using assms(2) run unfolding keeps_def by (metis snd_conv)
  have "n = length (live s1) - Suc i" using Suc.hyps(2) live by simp
  from Suc.hyps(1) [OF this, of "tr @ [(live s ! i, r)]"]
  have ih: "subscriber_emit_from run live a (Suc i) s1 (tr @ [(live s ! i, r)])
       = Some (None, all_called run (drop (Suc i) (live s)) a s1,
               (tr @ [(live s ! i, r)]) @ calls run (drop (Suc i) (live s)) a s1)"
    by (simp add: live)
  have c: "\<And>e. r = Some e \<Longrightarrow> propagates e = None"
    using assms(1) run unfolding ordinary_def by (metis fst_conv)
  have d: "drop i (live s) = live s ! i # drop (Suc i) (live s)"
    using lt by (simp add: Cons_nth_drop_Suc)
  have "subscriber_emit_from run live a i s tr
          = Some (None, all_called run (drop (Suc i) (live s)) a s1,
                  (tr @ [(live s ! i, r)]) @ calls run (drop (Suc i) (live s)) a s1)"
    using lt run ih c
    by (subst subscriber_emit_from.simps) (cases r; simp)
  then show ?case
    using run by (simp add: d all_called_def)
qed

text \<open>
  C10, as stated, has every exception of a callback caught, and the remaining
  callbacks invoked. The handlers are \<open>except Exception\<close> clauses that format the
  exception into a log line, and the per-topic dispatch walks the topic's list itself:
  \<^item> a \<open>SystemExit\<close> raised by the second of three callbacks of a signal leaves the
    emission, and the third callback is not called;
  \<^item> so does what the formatting of an exception raises inside the handler;
  \<^item> in a per-topic dispatch, the first callback takes itself off the topic's list
    and raises an \<open>Exception\<close>: it is caught, and the second callback, which has
    moved to the place already visited, is never called.
\<close>

theorem C10_emit_isolates_callbacks_counterexample:
  "signal_emit (raising_runner (SystemExiting ''exit'')) [1, 2, 3] () []
     = (Some (SystemExiting ''exit''), [1, 2], [(1, None), (2, Some (SystemExiting ''exit''))])
   \<and> signal_emit (raising_runner (Unprintable (PyException ''str''))) [1, 2, 3] () []
     = (Some (PyException ''str''), [1, 2],
        [(1, None), (2, Some (Unprintable (PyException ''str'')))])
   \<and> subscriber_emit removing_runner registered () ([], [1, 2, 3])
     = Some (None, ([1, 3], [2, 3]), [(1, Some (PyException ''boom'')), (3, None)])"
proof (intro conjI)
  show "signal_emit (raising_runner (SystemExiting ''exit'')) [1, 2, 3] () []
     = (Some (SystemExiting ''exit''), [1, 2], [(1, None), (2, Some (SystemExiting ''exit''))])"
    by (simp add: raising_runner_def)
  show "signal_emit (raising_runner (Unprintable (PyException ''str''))) [1, 2, 3] () []
     = (Some (PyException ''str''), [1, 2],
        [(1, None), (2, Some (Unprintable (PyException ''str'')))])"
    by (simp add: raising_runner_def)
  show "subscriber_emit removing_runner registered () ([], [1, 2, 3])
     = Some (None, ([1, 3], [2, 3]), [(1, Some (PyException ''boom'')), (3, None)])"
    unfolding subscriber_emit_def
    by (subst subscriber_emit_from.simps, simp add: removing_runner_def registered_def)+
qed

text \<open>
  C10, amended. Let every exception the callbacks raise be an instance of \<open>Exception\<close>
  that the handler can format into its log line. Then a signal emission returns to its
  caller with nothing propagated, having called every callback of the signal once, in
  registration order, each on the state its predecessor left, whatever the earlier
  ones raised. If, moreover, no callback changes the topic's callback list during the
  dispatch, a per-topic dispatch terminates with nothing propagated, having called
  every callback registered for the topic once, in registration order, in the same
  way.
\<close>

theorem C10_emit_isolates_callbacks:
  assumes "ordinary run"
  shows "signal_emit run cbs a s = (None, all_called run cbs a s, calls run cbs a s)
         \<and> map fst (calls run cbs a s) = cbs
         \<and> (keeps run live \<longrightarrow>
              subscriber_emit run live a s
                = Some (None, all_called run (live s) a s, calls run (live s) a s)
              \<and> map fst (calls run (live s) a s) = live s)"
  using signal_emit_all [OF assms, of cbs a s] subscriber_emit_from_all [OF assms, of live a 0 s "[]"]
  by (simp add: subscriber_emit_def map_fst_calls)

theorem C10_emit_isolates_callbacks_witness:
  "signal_emit (raising_runner (PyException ''boom'')) [1, 2, 3] () []
     = (None, [1, 2, 3], [(1, None), (2, Some (PyException ''boom'')), (3, None)])
   \<and> subscriber_emit (raising_runner (PyException ''boom'')) three_callbacks () []
     = Some (None, [1, 2, 3], [(1, None), (2, Some (PyException ''boom'')), (3, None)])"
proof -
  have o: "ordinary (raising_runner (PyException ''boom''))"
    by (simp add: ordinary_def raising_runner_def)
  have k: "keeps (raising_runner (PyException ''boom'')) three_callbacks"
    by (simp add: keeps_def three_callbacks_def)
  have v: "all_called (raising_runner (PyException ''boom'')) [1, 2, 3] () [] = [1, 2, 3]"
    "calls (raising_runner (PyException ''boom'')) [1, 2, 3] () []
       = [(1, None), (2, Some (PyException ''boom'')), (3, None)]"
    "three_callbacks [] = [1, 2, 3]"
    by (simp_all add: all_called_def raising_runner_def three_callbacks_def)
  note t = C10_emit_isolates_callbacks [OF o, of "[1, 2, 3]" "()" "[]" three_callbacks]
  from t have a: "signal_emit (raising_runner (PyException ''boom'')) [1, 2, 3] () []
      = (None, all_called (raising_runner (PyException ''boom'')) [1, 2, 3] () [],
         calls (raising_runner (PyException ''boom'')) [1, 2, 3] () [])"
    by (rule conjunct1)
  from t k have b: "subscriber_emit (raising_runner (PyException ''boom'')) three_callbacks () []
      = Some (None, all_called (raising_runner (PyException ''boom'')) (three_callbacks []) () [],
              calls (raising_runner (PyException ''boom'')) (three_callbacks []) () [])"
    by blast
  show ?thesis unfolding a b v by (intro conjI refl)
qed

section \<open>Normalisation of echo frames\<close>

text \<open>
  C7, as stated, has the echo callback receive exactly the triple (text, flags, sender)
  for every frame, and every payload that is neither a sequence of one, two, three or
  more elements nor a mapping delivered as its string form. A sequence of four elements
  is passed as it is, so the callback receives four arguments; and the empty sequence
  is delivered as the empty text, not as its string form.
\<close>

theorem C7_echo_counterexample:
  "snd (dispatch_data (\<lambda>v. ''[]'') ''ECHO''
          (VList [VStr ''ok'', VInt 0, VBytes [83, 1, 2, 3, 130], VInt 7])
          [83, 1, 2, 3, 129] example_client)
     = Some (Dispatch ''ECHO'' [VStr ''ok'', VInt 0, VBytes [83, 1, 2, 3, 130], VInt 7] [])
   \<and> snd (dispatch_data (\<lambda>v. ''[]'') ''ECHO'' (VList []) [83, 1, 2, 3, 129] example_client)
     = Some (Dispatch ''ECHO'' [VStr [], VInt 0, VBytes [83, 1, 2, 3, 129]] [])"
  by (simp add: dispatch_data_def echo_arguments_def)

text \<open>
  C7, amended. Every decoded payload on the echo topic is dispatched, with positional
  arguments only and the client state untouched: a sequence of three or more elements
  is passed as it is; a two-element sequence gets the frame's sender appended; a
  one-element sequence gets flags 0 and the frame's sender; the empty sequence becomes
  the empty text with flags 0 and the frame's sender; a mapping supplies text, flags
  and sender, a missing text defaulting to the empty text, missing flags to 0 and a
  missing sender to the frame's sender; any other payload is delivered as its string
  form with flags 0 and the frame's sender. The callback receives exactly three
  arguments unless the payload is a sequence of more than three elements.
\<close>

theorem C7_echo:
  "\<exists>args. dispatch_data str_of ''ECHO'' data sender c = (c, Some (Dispatch ''ECHO'' args []))
    \<and> (\<forall>xs. data = VList xs \<and> 3 \<le> length xs \<longrightarrow> args = xs)
    \<and> (\<forall>t f. data = VList [t, f] \<longrightarrow> args = [t, f, VBytes sender])
    \<and> (\<forall>t. data = VList [t] \<longrightarrow> args = [t, VInt 0, VBytes sender])
    \<and> (data = VList [] \<longrightarrow> args = [VStr [], VInt 0, VBytes sender])
    \<and> (\<forall>kvs. data = VDict kvs \<longrightarrow>
          args = [case map_of kvs (VStr ''text'') of Some t \<Rightarrow> t | None \<Rightarrow> VStr [],
                  case map_of kvs (VStr ''flags'') of Some f \<Rightarrow> f | None \<Rightarrow> VInt 0,
                  case map_of kvs (VStr ''sender_id'') of Some s \<Rightarrow> s | None \<Rightarrow> VBytes sender])
    \<and> ((\<forall>xs. data \<noteq> VList xs) \<and> (\<forall>kvs. data \<noteq> VDict kvs) \<longrightarrow>
          args = [VStr (str_of data), VInt 0, VBytes sender])
    \<and> ((\<forall>xs. data = VList xs \<longrightarrow> length xs \<le> 3) \<longrightarrow> length args = 3)"
  by (cases data) (auto simp: dispatch_data_def echo_arguments_def dict_get_def)

theorem C7_echo_witness:
  "dispatch_data (\<lambda>v. ''?'') ''ECHO'' (VDict [(VStr ''text'', VStr ''Unknown command'')])
       [83, 1, 2, 3, 129] example_client
     = (example_client,
        Some (Dispatch ''ECHO'' [VStr ''Unknown command'', VInt 0, VBytes [83, 1, 2, 3, 129]] []))
   \<and> dispatch_data (\<lambda>v. ''?'') ''ECHO'' (VList [VStr ''done'']) [83, 1, 2, 3, 129] example_client
     = (example_client,
        Some (Dispatch ''ECHO'' [VStr ''done'', VInt 0, VBytes [83, 1, 2, 3, 129]] []))"
  using C7_echo [of "\<lambda>v. ''?''" "VDict [(VStr ''text'', VStr ''Unknown command'')]"
                    "[83, 1, 2, 3, 129]" example_client]
        C7_echo [of "\<lambda>v. ''?''" "VList [VStr ''done'']" "[83, 1, 2, 3, 129]" example_client]
  by auto

section \<open>Command submission and the drain of the command stack\<close>

text \<open>How the drain treats an entry: it is blank when it has no first word, local
  when its upper-cased first word is \<open>HELP\<close> or \<open>?\<close>. The echo of a local entry
  carries the help text; a forwarded entry travels as a \<open>STACK\<close> frame addressed to
  the active node, or to the server when no node is active.\<close>

definition blank :: "string \<Rightarrow> bool" where
  "blank e = (split_ws (strip e) = [])"

definition local_cmd :: "string \<Rightarrow> bool" where
  "local_cmd e =
     (case split_ws (strip e) of [] \<Rightarrow> False | w # args \<Rightarrow> py_upper w = ''HELP'' \<or> py_upper w = ''?'')"



definition stack_frame :: "client \<Rightarrow> string \<Rightarrow> effect" where
  "stack_frame c e =
     SendMultipart (ljust IDLEN WILDCARD (forward_target c) @ encode_charmap ''STACK'' @ node_id c)
       (VStr e)"


definition forwards :: "client \<Rightarrow> string list \<Rightarrow> effect list" where
  "forwards c es = map (stack_frame c) (filter (\<lambda>e. \<not> blank e \<and> \<not> local_cmd e) es)"






lemma forward_target_upd [simp]:
  "forward_target (c\<lparr>cmdstack := r\<rparr>) = forward_target c"
  "forward_target (journal x c) = forward_target c"
  by (simp_all add: forward_target_def journal_def split: option.splits)

lemma node_id_journal [simp]: "node_id (journal x c) = node_id c"
  by (simp add: journal_def)

lemma stack_frame_upd [simp]:
  "stack_frame (c\<lparr>cmdstack := r\<rparr>) e = stack_frame c e"
  "stack_frame (journal x c) e = stack_frame c e"
  by (simp_all add: stack_frame_def)

lemma forwards_cmdstack [simp]: "forwards (c\<lparr>cmdstack := r\<rparr>) es = forwards c es"
  by (simp add: forwards_def)

lemma forwards_journal [simp]: "forwards (journal x c) es = forwards c es"
  by (simp add: forwards_def)




lemma split_on_sep_free: "e \<in> set (split_on sep s) \<Longrightarrow> sep \<notin> set e"
  by (induction s arbitrary: e) (auto split: if_splits list.splits)




definition client_effects :: "proxy \<Rightarrow> effect list" where
  "client_effects p = (case bluesky_client p of None \<Rightarrow> [] | Some c \<Rightarrow> effects c)"

definition forwarded :: "proxy \<Rightarrow> proxy \<Rightarrow> effect list" where
  "forwarded p p' = drop (length (client_effects p)) (client_effects p')"






section \<open>Selecting the active node\<close>

text \<open>The journal entries of an active-node switch. For a binding of topic and
  addressee: one unsubscribe keyed on the old active node, when there is one, then one
  subscribe keyed on the new node; for a registry: the entries of its bindings, in
  iteration order.\<close>

definition append_effects :: "effect list \<Rightarrow> client \<Rightarrow> client" where
  "append_effects es c = c\<lparr>effects := effects c @ es\<rparr>"

definition tag_bytes :: "pydata \<Rightarrow> bytes" where
  "tag_bytes g = (case asbytestr g of Inl e \<Rightarrow> [] | Inr b \<Rightarrow> b)"

definition binding_key :: "string \<Rightarrow> bytes \<Rightarrow> pydata \<Rightarrow> bytes" where
  "binding_key topic node to_group = ljust IDLEN WILDCARD (tag_bytes to_group) @ encode_charmap topic @ node"

definition pair_ops :: "bytes option \<Rightarrow> bytes \<Rightarrow> string \<Rightarrow> pydata \<Rightarrow> effect list" where
  "pair_ops old newact topic to_group =
     (case old of
        None \<Rightarrow> []
      | Some a \<Rightarrow> if a \<noteq> [] then [SetSockOpt UNSUBSCRIBE (binding_key topic a to_group)] else [])
     @ [SetSockOpt SUBSCRIBE (binding_key topic newact to_group)]"

definition switch_ops :: "bytes option \<Rightarrow> bytes \<Rightarrow> (string \<times> pydata list) list \<Rightarrow> effect list" where
  "switch_ops old newact registry =
     concat (map (\<lambda>entry. concat (map (pair_ops old newact (fst entry)) (snd entry))) registry)"

definition encodable :: "(string \<times> pydata list) list \<Rightarrow> bool" where
  "encodable registry = (\<forall>entry \<in> set registry. \<forall>g \<in> set (snd entry). group_tag g)"

lemma append_effects_fields [simp]:
  "sock_recv (append_effects es c) = sock_recv c"
  "act_id (append_effects es c) = act_id c"
  "nodes (append_effects es c) = nodes c"
  "acttopics (append_effects es c) = acttopics c"
  "node_added (append_effects es c) = node_added c"
  "actnode_changed (append_effects es c) = actnode_changed c"
  "effects (append_effects es c) = effects c @ es"
  "running (append_effects es c) = running c"
  "sock_send (append_effects es c) = sock_send c"
  "node_id (append_effects es c) = node_id c"
  by (simp_all add: append_effects_def)

lemma append_effects_append [simp]:
  "append_effects es (append_effects es' c) = append_effects (es' @ es) c"
  by (simp add: append_effects_def)

lemma append_effects_Nil [simp]: "append_effects [] c = c"
  by (simp add: append_effects_def)

lemma journal_append_effects: "journal e c = append_effects [e] c"
  by (simp add: journal_def append_effects_def)

lemma setsockopt_key_bytes:
  "group_tag g \<Longrightarrow>
   setsockopt_key opt t (PBytes f) g c = append_effects [SetSockOpt opt (binding_key t f g)] c"
  by (cases g)
     (auto simp: setsockopt_key_def subscription_key_def binding_key_def tag_bytes_def
       journal_append_effects chr_charmap_def)

lemma resubscribe_pair_ops:
  "sock_recv c \<Longrightarrow> group_tag g \<Longrightarrow>
   resubscribe_pair n t c g = append_effects (pair_ops (act_id c) n t g) c"
  by (auto simp: resubscribe_pair_def pair_ops_def unsubscribe_low_def subscribe_low_def
      setsockopt_key_bytes Let_def split: option.splits)

lemma resubscribe_topic_ops:
  "sock_recv c \<Longrightarrow> \<forall>g \<in> set gs. group_tag g \<Longrightarrow>
   foldl (resubscribe_pair n t) c gs = append_effects (concat (map (pair_ops (act_id c) n t) gs)) c"
proof (induction gs arbitrary: c)
  case Nil
  then show ?case by simp
next
  case (Cons g gs)
  then show ?case by (simp add: resubscribe_pair_ops)
qed

lemma resubscribe_registry_ops:
  "sock_recv c \<Longrightarrow> encodable registry \<Longrightarrow>
   foldl (resubscribe_topic n) c registry = append_effects (switch_ops (act_id c) n registry) c"
proof (induction registry arbitrary: c)
  case Nil
  then show ?case by (simp add: switch_ops_def)
next
  case (Cons entry registry)
  then have "encodable registry" and "\<forall>g \<in> set (snd entry). group_tag g"
    by (simp_all add: encodable_def)
  with Cons.IH [of "append_effects (concat (map (pair_ops (act_id c) n (fst entry)) (snd entry))) c"]
       Cons.prems(1)
  show ?case
    by (simp add: resubscribe_topic_def resubscribe_topic_ops switch_ops_def)
qed

lemma resubscribe_ops:
  "sock_recv c \<Longrightarrow> encodable (acttopics c) \<Longrightarrow>
   resubscribe n c = append_effects (switch_ops (act_id c) n (acttopics c)) c"
  by (simp add: resubscribe_def resubscribe_registry_ops)

lemma signal_emit_total:
  "fst (snd (signal_emit (\<lambda>cb a s. (None, f cb a s)) cbs a s)) = foldl (\<lambda>s cb. f cb a s) s cbs"
proof (induction cbs arbitrary: s)
  case Nil
  then show ?case by simp
next
  case (Cons cb cbs)
  obtain r s' tr where e: "signal_emit (\<lambda>cb a s. (None, f cb a s)) cbs a (f cb a s) = (r, s', tr)"
    by (cases "signal_emit (\<lambda>cb a s. (None, f cb a s)) cbs a (f cb a s)")
  with Cons [of "f cb a s"] show ?case by simp
qed

lemma emit_listeners_ops:
  "emit_listeners sig arg cbs c = append_effects (map (\<lambda>cb. Called sig cb arg) cbs) c"
  unfolding emit_listeners_def signal_emit_total
  by (induction cbs arbitrary: c) (simp_all add: journal_append_effects)

lemma issued_append_effects [simp]: "issued c (append_effects es c) = es"
  by (simp add: issued_def append_effects_def)


subsection \<open>What the client operations leave alone\<close>

text \<open>Low-level subscription, sending and listener notification change neither the
  connection flags, nor the node set, nor the discovery callbacks, nor the active node.\<close>

definition untouched :: "client \<Rightarrow> client \<Rightarrow> bool" where
  "untouched c c' \<longleftrightarrow>
     running c' = running c \<and> sock_recv c' = sock_recv c \<and> nodes c' = nodes c
     \<and> node_added c' = node_added c \<and> act_id c' = act_id c"

lemma untouched_refl [simp]: "untouched c c"
  by (simp add: untouched_def)

lemma untouched_trans: "untouched c c' \<Longrightarrow> untouched c' c'' \<Longrightarrow> untouched c c''"
  by (simp add: untouched_def)

lemma untouched_journal [simp]: "untouched c (journal e c)"
  by (simp add: untouched_def journal_def)

lemma untouched_setsockopt_key [simp]: "untouched c (setsockopt_key opt t f g c)"
  by (cases "subscription_key t f g") (simp_all add: setsockopt_key_def)

lemma untouched_acttopics [simp]: "untouched c (c'\<lparr>acttopics := r\<rparr>) = untouched c c'"
  by (simp add: untouched_def)

lemma untouched_setsockopt_key_acttopics [simp]:
  "untouched c (setsockopt_key opt t f g (c\<lparr>acttopics := r\<rparr>))"
  by (cases "subscription_key t f g") (simp_all add: setsockopt_key_def untouched_def journal_def)

lemma untouched_subscribe_low [simp]: "untouched c (subscribe_low t f g a c)"
  by (simp add: subscribe_low_def Let_def split: option.splits)

lemma untouched_unsubscribe_low [simp]: "untouched c (unsubscribe_low t f g c)"
  by (simp add: unsubscribe_low_def Let_def split: option.splits)

lemma untouched_send [simp]: "untouched c (send t d g c)"
  by (simp add: send_def split: sum.splits)

lemma untouched_resubscribe_pair [simp]: "untouched c (resubscribe_pair n t c g)"
  unfolding resubscribe_pair_def Let_def
  by (rule untouched_trans [OF _ untouched_subscribe_low]) (simp split: option.splits)

lemma untouched_foldl:
  "(\<And>s x. untouched s (f s x)) \<Longrightarrow> untouched c (foldl f c xs)"
proof (induction xs arbitrary: c)
  case Nil
  then show ?case by simp
next
  case (Cons x xs)
  from Cons.prems have "untouched c (f c x)" .
  moreover from Cons.IH [OF Cons.prems] have "untouched (f c x) (foldl f (f c x) xs)" .
  ultimately show ?case by (simp add: untouched_trans)
qed

lemma untouched_resubscribe [simp]: "untouched c (resubscribe n c)"
  unfolding resubscribe_def resubscribe_topic_def
  by (intro untouched_foldl untouched_resubscribe_pair)

lemma untouched_emit_listeners [simp]: "untouched c (emit_listeners sig arg cbs c)"
  by (simp add: emit_listeners_ops untouched_def)

lemma acttopics_setsockopt_key [simp]: "acttopics (setsockopt_key opt t f g c) = acttopics c"
  by (cases "subscription_key t f g") (simp_all add: setsockopt_key_def journal_def)

lemma acttopics_resubscribe_pair [simp]: "acttopics (resubscribe_pair n t c g) = acttopics c"
  by (simp add: resubscribe_pair_def unsubscribe_low_def subscribe_low_def Let_def
      split: option.splits)

lemma acttopics_foldl:
  "(\<And>s x. acttopics (f s x) = acttopics s) \<Longrightarrow> acttopics (foldl f c xs) = acttopics c"
  by (induction xs arbitrary: c) simp_all

lemma acttopics_resubscribe [simp]: "acttopics (resubscribe n c) = acttopics c"
  unfolding resubscribe_def resubscribe_topic_def
  by (intro acttopics_foldl acttopics_resubscribe_pair)

text \<open>What \<open>actnode\<close> does to the fields the invariant speaks about.\<close>

lemma actnode_fields:
  "running (snd (actnode x c)) = running c"
  "sock_recv (snd (actnode x c)) = sock_recv c"
  "nodes (snd (actnode x c)) = nodes c"
  "acttopics (snd (actnode x c)) = acttopics c"
  "node_added (snd (actnode x c)) = node_added c
     \<or> node_added (snd (actnode x c)) = signal_disconnect ActnodeCb (node_added c)"
proof -
  let ?c1 = "c\<lparr>node_added := signal_disconnect ActnodeCb (node_added c)\<rparr>"
  have r: "\<And>n d. untouched d (resubscribe n d)" by simp
  have e: "\<And>n cbs d. emit_listeners ActnodeChanged n cbs d
                = append_effects (map (\<lambda>cb. Called ActnodeChanged cb n) cbs) d"
    by (rule emit_listeners_ops)
  show "running (snd (actnode x c)) = running c"
    using r [of c] r [of ?c1]
    by (auto simp: actnode_def Let_def e untouched_def split: option.splits)
  show "sock_recv (snd (actnode x c)) = sock_recv c"
    using r [of c] r [of ?c1]
    by (auto simp: actnode_def Let_def e untouched_def split: option.splits)
  show "nodes (snd (actnode x c)) = nodes c"
    using r [of c] r [of ?c1]
    by (auto simp: actnode_def Let_def e untouched_def split: option.splits)
  show "acttopics (snd (actnode x c)) = acttopics c"
    by (auto simp: actnode_def Let_def e split: option.splits)
  show "node_added (snd (actnode x c)) = node_added c
     \<or> node_added (snd (actnode x c)) = signal_disconnect ActnodeCb (node_added c)"
    using r [of c] r [of ?c1]
    by (auto simp: actnode_def Let_def e untouched_def split: option.splits)
qed


definition kept :: "client \<Rightarrow> client \<Rightarrow> bool" where
  "kept c c' \<longleftrightarrow>
     running c' = running c \<and> sock_recv c' = sock_recv c \<and> nodes c' = nodes c
     \<and> acttopics c' = acttopics c \<and> set (node_added c') \<subseteq> set (node_added c)
     \<and> (distinct (node_added c) \<longrightarrow> distinct (node_added c'))"

lemma kept_refl [simp]: "kept c c"
  by (simp add: kept_def)

lemma kept_trans: "kept c c' \<Longrightarrow> kept c' c'' \<Longrightarrow> kept c c''"
  by (auto simp: kept_def)

lemma kept_foldl: "(\<And>s x. kept s (f s x)) \<Longrightarrow> kept c (foldl f c xs)"
proof (induction xs arbitrary: c)
  case Nil
  then show ?case by simp
next
  case (Cons x xs)
  from Cons.prems have "kept c (f c x)" .
  moreover from Cons.IH [OF Cons.prems] have "kept (f c x) (foldl f (f c x) xs)" .
  ultimately show ?case by (simp add: kept_trans)
qed

lemma signal_disconnect_set: "set (signal_disconnect cb cbs) \<subseteq> set cbs"
  using set_remove1_subset [of cb cbs] by (auto simp: signal_disconnect_def)

lemma signal_disconnect_distinct: "distinct cbs \<Longrightarrow> distinct (signal_disconnect cb cbs)"
  by (simp add: signal_disconnect_def)

lemma signal_disconnect_gone: "distinct cbs \<Longrightarrow> cb \<notin> set (signal_disconnect cb cbs)"
  by (simp add: signal_disconnect_def)

lemma kept_actnode: "kept c (snd (actnode x c))"
  using actnode_fields [of x c] signal_disconnect_set [of ActnodeCb "node_added c"]
    signal_disconnect_distinct [of "node_added c" ActnodeCb]
  by (auto simp: kept_def)

lemma acttopics_send [simp]: "acttopics (send t d g c) = acttopics c"
  by (simp add: send_def journal_def split: sum.splits)

lemma kept_send: "kept c (send t d g c)"
  using untouched_send [of c t d g] by (simp add: kept_def untouched_def)

lemma kept_run_node_added: "kept c (run_node_added arg c cb)"
proof (cases cb)
  case ActnodeCb
  then show ?thesis by (simp add: kept_actnode)
next
  case RequestDataCb
  then show ?thesis
    by (simp add: on_node_added_request_data_def kept_trans [OF kept_send kept_send])
next
  case (ListenerCb k)
  then show ?thesis by (simp add: kept_def journal_def)
qed

lemma emit_node_added_foldl:
  "emit_node_added arg c = foldl (run_node_added arg) c (node_added c)"
  unfolding emit_node_added_def signal_emit_total ..

lemma kept_emit_node_added: "kept c (emit_node_added arg c)"
  unfolding emit_node_added_foldl by (intro kept_foldl kept_run_node_added)

lemma kept_emit_listeners: "kept c (emit_listeners sig arg cbs c)"
  by (simp add: emit_listeners_ops kept_def)

text \<open>A control frame changes the node and server sets only.\<close>

lemma process_subscription_message_fields:
  "running (process_subscription_message msg c) = running c"
  "sock_recv (process_subscription_message msg c) = sock_recv c"
  "acttopics (process_subscription_message msg c) = acttopics c"
  "set (node_added (process_subscription_message msg c)) \<subseteq> set (node_added c)"
  "distinct (node_added c) \<Longrightarrow> distinct (node_added (process_subscription_message msg c))"
proof -
  have a: "\<And>s d. kept (d\<lparr>nodes := s\<rparr>) (emit_node_added (tl (hd msg)) (d\<lparr>nodes := s\<rparr>))"
    by (rule kept_emit_node_added)
  have b: "\<And>sig cbs d. kept d (emit_listeners sig (tl (hd msg)) cbs d)"
    by (rule kept_emit_listeners)
  have k: "running (process_subscription_message msg c) = running c
     \<and> sock_recv (process_subscription_message msg c) = sock_recv c
     \<and> acttopics (process_subscription_message msg c) = acttopics c
     \<and> set (node_added (process_subscription_message msg c)) \<subseteq> set (node_added c)
     \<and> (distinct (node_added c) \<longrightarrow> distinct (node_added (process_subscription_message msg c)))"
  proof (cases msg)
    case Nil
    then show ?thesis by (simp add: process_subscription_message_def)
  next
    case (Cons m0 rest)
    show ?thesis
      using a [of "insert (tl m0) (nodes c)" c]
        b [of "c\<lparr>servers := insert (tl m0) (servers c)\<rparr>" ServerAdded "server_added c"]
        b [of "c\<lparr>nodes := nodes c - {tl m0}\<rparr>" NodeRemoved "node_removed c"]
        b [of "c\<lparr>servers := servers c - {tl m0}\<rparr>" ServerRemoved "server_removed c"]
      unfolding Cons process_subscription_message_def Let_def kept_def
      by (simp split: if_splits)
  qed
  from k show "running (process_subscription_message msg c) = running c"
    "sock_recv (process_subscription_message msg c) = sock_recv c"
    "acttopics (process_subscription_message msg c) = acttopics c"
    "set (node_added (process_subscription_message msg c)) \<subseteq> set (node_added c)"
    "distinct (node_added c) \<Longrightarrow> distinct (node_added (process_subscription_message msg c))"
    by blast+
qed


lemma untouched_run_node_added:
  "cb \<noteq> ActnodeCb \<Longrightarrow> untouched c (run_node_added arg c cb)"
  by (cases cb)
     (simp_all add: on_node_added_request_data_def untouched_trans [OF untouched_send untouched_send])

lemma untouched_node_added_foldl:
  "ActnodeCb \<notin> set cbs \<Longrightarrow> untouched c (foldl (run_node_added arg) c cbs)"
proof (induction cbs arbitrary: c)
  case Nil
  then show ?case by simp
next
  case (Cons cb cbs)
  then have "untouched c (run_node_added arg c cb)"
    by (intro untouched_run_node_added) auto
  moreover from Cons have "untouched (run_node_added arg c cb)
      (foldl (run_node_added arg) (run_node_added arg c cb) cbs)" by simp
  ultimately show ?case by (simp add: untouched_trans)
qed

lemma act_id_emit_listeners [simp]: "act_id (emit_listeners sig arg cbs c) = act_id c"
  by (simp add: emit_listeners_ops)

lemma auto_selection_off:
  assumes "ActnodeCb \<notin> set (node_added c)"
  shows "act_id (process_subscription_message msg c) = act_id c"
proof (cases msg)
  case Nil
  then show ?thesis by (simp add: process_subscription_message_def)
next
  case (Cons m0 rest)
  have "untouched (c\<lparr>nodes := insert (tl m0) (nodes c)\<rparr>)
          (emit_node_added (tl m0) (c\<lparr>nodes := insert (tl m0) (nodes c)\<rparr>))"
    unfolding emit_node_added_foldl using assms by (intro untouched_node_added_foldl) simp
  then show ?thesis
    unfolding Cons process_subscription_message_def Let_def untouched_def
    by (simp split: if_splits)
qed

text \<open>The operations that act on one client object during its life.\<close>

inductive client_step :: "client \<Rightarrow> client \<Rightarrow> bool" where
  step_connect: "client_step c (snd (connect transport_ok opened f c))"
| step_close: "client_step c (close f c)"
| step_subscribe: "client_step c (subscribe topic actonly c)"
| step_control: "running c \<Longrightarrow> poller c \<Longrightarrow> client_step c (process_subscription_message msg c)"
| step_data: "running c \<Longrightarrow> poller c \<Longrightarrow>
     client_step c (fst (process_data_message utf8 unpackb str_of msg c))"
| step_actnode: "client_step c (snd (actnode newact c))"
| step_send: "client_step c (send topic data to_group c)"
| step_stack: "client_step c (stack cmdline sender c)"
| step_pop: "client_step c (c\<lparr>cmdstack := tl (cmdstack c)\<rparr>)"
| step_clear_act: "client_step c (c\<lparr>act_id := None\<rparr>)"
| step_listener_node_added:
    "client_step c (c\<lparr>node_added := signal_connect (ListenerCb k) (node_added c)\<rparr>)"
| step_listener_node_removed:
    "client_step c (c\<lparr>node_removed := signal_connect (ListenerCb k) (node_removed c)\<rparr>)"
| step_listener_server_added:
    "client_step c (c\<lparr>server_added := signal_connect (ListenerCb k) (server_added c)\<rparr>)"
| step_listener_server_removed:
    "client_step c (c\<lparr>server_removed := signal_connect (ListenerCb k) (server_removed c)\<rparr>)"
| step_listener_actnode_changed:
    "client_step c (c\<lparr>actnode_changed := signal_connect (ListenerCb k) (actnode_changed c)\<rparr>)"

text \<open>The invariant of a client object: a running client has its receiving socket,
  nodes are known only to a running client, every addressee in the active-only registry
  encodes, and the discovery callbacks hold no duplicate. It holds after construction
  and every operation keeps it.\<close>

definition client_inv :: "client \<Rightarrow> bool" where
  "client_inv c \<longleftrightarrow>
     (running c \<longrightarrow> sock_recv c) \<and> (nodes c \<noteq> {} \<longrightarrow> running c)
     \<and> encodable (acttopics c) \<and> distinct (node_added c)"

lemma teardown_fields [simp]:
  "running (teardown f c) = running c" "node_added (teardown f c) = node_added c"
  by (simp_all add: teardown_def Let_def)

lemma close_more_fields [simp]:
  "node_added (close f c) = node_added c"
  by (simp add: close_def)

lemma process_data_message_fields:
  "running (fst (process_data_message utf8 unpackb str_of msg c)) = running c"
  "sock_recv (fst (process_data_message utf8 unpackb str_of msg c)) = sock_recv c"
  "nodes (fst (process_data_message utf8 unpackb str_of msg c)) = nodes c"
  "acttopics (fst (process_data_message utf8 unpackb str_of msg c)) = acttopics c"
  "node_added (fst (process_data_message utf8 unpackb str_of msg c)) = node_added c"
  by (auto simp: process_data_message_def dispatch_data_def shared_state_def set_context_def
      Let_def split: list.splits option.splits pyval.splits)

lemma encodable_registry_add:
  "encodable r \<Longrightarrow> group_tag g \<Longrightarrow> encodable (registry_add t g r)"
  by (induction r) (fastforce simp: encodable_def split: if_splits)+

lemma subscribe_fields:
  "running (subscribe t a c) = running c"
  "sock_recv (subscribe t a c) = sock_recv c"
  "nodes (subscribe t a c) = nodes c"
  "node_added (subscribe t a c) = node_added c"
  "encodable (acttopics c) \<Longrightarrow> encodable (acttopics (subscribe t a c))"
  using untouched_subscribe_low [of c t "PInt GROUPID_DEFAULT" "PStr []" a]
  by (auto simp: subscribe_def untouched_def subscribe_low_def Let_def encodable_registry_add
      split: option.splits)

lemma connect_fields:
  "client_inv c \<Longrightarrow> client_inv (snd (connect ok opened f c))"
  using untouched_subscribe_low
     [of "c\<lparr>zmq_context := True, sock_recv := True, sock_send := True, poller := True\<rparr>"
         "[]" "PStr []" "PBytes (node_id c)" False]
  by (auto simp: connect_def Let_def client_inv_def untouched_def subscribe_low_def GROUPID_DEFAULT_def
       encodable_def)

lemma signal_connect_distinct: "distinct cbs \<Longrightarrow> distinct (signal_connect cb cbs)"
  by (simp add: signal_connect_def)

lemma client_step_inv:
  assumes "client_step c c'" and "client_inv c"
  shows "client_inv c'"
  using assms
proof (induction rule: client_step.induct)
  case (step_connect c transport_ok opened f)
  then show ?case by (rule connect_fields)
next
  case (step_close c f)
  then show ?case by (simp add: client_inv_def encodable_def)
next
  case (step_subscribe c topic actonly)
  then show ?case by (simp add: client_inv_def subscribe_fields)
next
  case (step_control c msg)
  then show ?case by (simp add: client_inv_def process_subscription_message_fields)
next
  case (step_data c utf8 unpackb str_of msg)
  then show ?case by (simp add: client_inv_def process_data_message_fields)
next
  case (step_actnode c newact)
  with kept_actnode [of c newact] show ?case by (simp add: client_inv_def kept_def)
next
  case (step_send c topic data to_group)
  with kept_send [of c topic data to_group] show ?case by (simp add: client_inv_def kept_def)
next
  case (step_stack c cmdline sender)
  then show ?case by (simp add: client_inv_def stack_def Let_def)
next
  case (step_listener_node_added c k)
  then show ?case by (simp add: client_inv_def signal_connect_distinct)
qed (simp_all add: client_inv_def)

lemma client_step_auto_selection:
  assumes "client_step c c'" and "ActnodeCb \<notin> set (node_added c)"
  shows "ActnodeCb \<notin> set (node_added c')"
  using assms
proof (induction rule: client_step.induct)
  case (step_connect c transport_ok opened f)
  with untouched_subscribe_low
     [of "c\<lparr>zmq_context := True, sock_recv := True, sock_send := True, poller := True\<rparr>"
         "[]" "PStr []" "PBytes (node_id c)" False]
  show ?case by (auto simp: connect_def Let_def untouched_def)
next
  case (step_subscribe c topic actonly)
  then show ?case by (simp add: subscribe_fields)
next
  case (step_control c msg)
  with process_subscription_message_fields(4) [of msg c] show ?case by blast
next
  case (step_data c utf8 unpackb str_of msg)
  then show ?case by (simp add: process_data_message_fields)
next
  case (step_actnode c newact)
  with kept_actnode [of c newact] show ?case by (auto simp: kept_def)
next
  case (step_send c topic data to_group)
  with kept_send [of c topic data to_group] show ?case by (auto simp: kept_def)
next
  case (step_stack c cmdline sender)
  then show ?case by (simp add: stack_def Let_def)
next
  case (step_listener_node_added c k)
  then show ?case by (simp add: signal_connect_def)
qed simp_all

lemma client_steps_auto_selection:
  "client_step\<^sup>*\<^sup>* c c' \<Longrightarrow> ActnodeCb \<notin> set (node_added c) \<Longrightarrow> ActnodeCb \<notin> set (node_added c')"
  by (induction rule: rtranclp_induct) (auto dest: client_step_auto_selection)


text \<open>The example client with two active-only bindings and one listener for the
  change of the active node.\<close>

definition subscribed_client :: client where
  "subscribed_client =
     example_client\<lparr>acttopics := [(''ACDATA'', [PStr []]), (''ROUTEDATA'', [PStr []])],
                    actnode_changed := [ListenerCb 0]\<rparr>"

lemma resubscribe_act_id: "act_id (resubscribe n c) = act_id c"
  using untouched_resubscribe [of c n] by (simp add: untouched_def)

lemma actnode_switch:
  assumes "client_inv c" and "n \<noteq> []" and "n \<in> nodes c" and "act_id c \<noteq> Some n"
  shows "snd (actnode (Some n) c)
           = append_effects (switch_ops (act_id c) n (acttopics c)
               @ map (\<lambda>cb. Called ActnodeChanged cb n) (actnode_changed c))
               ((if act_id c = None
                 then c\<lparr>node_added := signal_disconnect ActnodeCb (node_added c)\<rparr> else c)
                  \<lparr>act_id := Some n\<rparr>)"
    and "fst (actnode (Some n) c) = Some n"
proof -
  let ?c1 = "if act_id c = None
             then c\<lparr>node_added := signal_disconnect ActnodeCb (node_added c)\<rparr> else c"
  have sr: "sock_recv ?c1" "encodable (acttopics ?c1)" "act_id ?c1 = act_id c"
    "acttopics ?c1 = acttopics c"
    using assms by (auto simp: client_inv_def)
  have r: "resubscribe n ?c1 = append_effects (switch_ops (act_id c) n (acttopics c)) ?c1"
    using resubscribe_ops [OF sr(1,2), of n] sr(3,4) by simp
  have unf: "actnode (Some n) c =
      (let c2 = resubscribe n ?c1; c3 = c2\<lparr>act_id := Some n\<rparr>;
           c4 = emit_listeners ActnodeChanged n (actnode_changed c3) c3
       in (act_id c4, c4))"
    using assms by (auto simp: actnode_def Let_def)
  show "snd (actnode (Some n) c)
           = append_effects (switch_ops (act_id c) n (acttopics c)
               @ map (\<lambda>cb. Called ActnodeChanged cb n) (actnode_changed c))
               (?c1\<lparr>act_id := Some n\<rparr>)"
    unfolding unf Let_def r emit_listeners_ops
    by (auto simp: append_effects_def)
  show "fst (actnode (Some n) c) = Some n"
    unfolding unf Let_def r emit_listeners_ops by simp
qed

text \<open>
  C1. For a client in a state its operations can reach and any identifier \<open>n\<close>:
  \<^item> if \<open>n\<close> is not a tracked node, the state is unchanged (nothing is issued, no
    notification is emitted) and the call returns none;
  \<^item> if \<open>n\<close> is tracked and no active node was set, then after the call, and after
    any further operations on this client, \<open>actnode\<close> is no longer among the
    node-discovery callbacks and a discovery frame leaves the active node as it is;
  \<^item> if \<open>n\<close> is tracked and differs from the active node, the call issues, for every
    (topic, addressee) pair of the active-only registry in turn, one unsubscribe keyed
    on the old active node (when there is one) and one subscribe keyed on \<open>n\<close>, and
    after all of them one notification per listener of the change; the resubscription
    loop leaves the active node as it was, the call ends with \<open>n\<close> active and
    returns it.
\<close>

theorem C1_actnode:
  assumes "client_inv c"
  shows "(n \<notin> nodes c \<longrightarrow>
            snd (actnode (Some n) c) = c \<and> (n \<noteq> [] \<longrightarrow> fst (actnode (Some n) c) = None))
         \<and> (n \<noteq> [] \<and> n \<in> nodes c \<and> act_id c = None \<longrightarrow>
              (\<forall>c'. client_step\<^sup>*\<^sup>* (snd (actnode (Some n) c)) c' \<longrightarrow>
                 ActnodeCb \<notin> set (node_added c')
                 \<and> (\<forall>msg. act_id (process_subscription_message msg c') = act_id c')))
         \<and> (n \<noteq> [] \<and> n \<in> nodes c \<and> act_id c \<noteq> Some n \<longrightarrow>
              issued c (snd (actnode (Some n) c))
                = switch_ops (act_id c) n (acttopics c)
                  @ map (\<lambda>cb. Called ActnodeChanged cb n) (actnode_changed c)
              \<and> act_id (resubscribe n c) = act_id c
              \<and> act_id (snd (actnode (Some n) c)) = Some n
              \<and> fst (actnode (Some n) c) = Some n)"
proof (intro conjI impI allI)
  assume "n \<notin> nodes c"
  then show "snd (actnode (Some n) c) = c" by (simp add: actnode_def)
next
  assume "n \<notin> nodes c" and "n \<noteq> []"
  then show "fst (actnode (Some n) c) = None" by (simp add: actnode_def)
next
  fix c' assume a: "n \<noteq> [] \<and> n \<in> nodes c \<and> act_id c = None"
    and st: "client_step\<^sup>*\<^sup>* (snd (actnode (Some n) c)) c'"
  from a have ne: "act_id c \<noteq> Some n" by simp
  from actnode_switch(1) [OF assms _ _ ne] a
  have "node_added (snd (actnode (Some n) c)) = signal_disconnect ActnodeCb (node_added c)"
    by simp
  moreover from assms have "distinct (node_added c)" by (simp add: client_inv_def)
  ultimately have "ActnodeCb \<notin> set (node_added (snd (actnode (Some n) c)))"
    by (simp add: signal_disconnect_gone)
  with st show off: "ActnodeCb \<notin> set (node_added c')"
    by (rule client_steps_auto_selection)
  fix msg
  from off show "act_id (process_subscription_message msg c') = act_id c'"
    by (rule auto_selection_off)
next
  assume a: "n \<noteq> [] \<and> n \<in> nodes c \<and> act_id c \<noteq> Some n"
  with actnode_switch [OF assms, of n]
  show "issued c (snd (actnode (Some n) c))
          = switch_ops (act_id c) n (acttopics c)
            @ map (\<lambda>cb. Called ActnodeChanged cb n) (actnode_changed c)"
    "act_id (snd (actnode (Some n) c)) = Some n"
    "fst (actnode (Some n) c) = Some n"
    by (auto simp: issued_def append_effects_def)
  show "act_id (resubscribe n c) = act_id c" by (rule resubscribe_act_id)
qed

lemma subscribed_client_inv: "client_inv subscribed_client"
  by (simp add: client_inv_def encodable_def subscribed_client_def example_client_def connect_def
      init_client_def Let_def subscribe_low_def setsockopt_key_def subscription_key_def journal_def
      GROUPID_DEFAULT_def)

lemma init_client_inv: "client_inv (init_client nid sid)"
  by (simp add: client_inv_def init_client_def encodable_def)

theorem C1_actnode_witness:
  "snd (actnode (Some [83, 9, 9, 9, 129]) subscribed_client) = subscribed_client
   \<and> fst (actnode (Some [83, 9, 9, 9, 129]) subscribed_client) = None
   \<and> ActnodeCb \<notin> set (node_added (snd (actnode (Some [83, 1, 2, 3, 129]) subscribed_client)))
   \<and> issued (snd (actnode (Some [83, 1, 2, 3, 129]) subscribed_client))
        (snd (actnode (Some [83, 1, 2, 3, 130])
               (snd (actnode (Some [83, 1, 2, 3, 129]) subscribed_client))))
      = [SetSockOpt UNSUBSCRIBE [42, 42, 42, 42, 42, 65, 67, 68, 65, 84, 65, 83, 1, 2, 3, 129],
         SetSockOpt SUBSCRIBE [42, 42, 42, 42, 42, 65, 67, 68, 65, 84, 65, 83, 1, 2, 3, 130],
         SetSockOpt UNSUBSCRIBE
           [42, 42, 42, 42, 42, 82, 79, 85, 84, 69, 68, 65, 84, 65, 83, 1, 2, 3, 129],
         SetSockOpt SUBSCRIBE
           [42, 42, 42, 42, 42, 82, 79, 85, 84, 69, 68, 65, 84, 65, 83, 1, 2, 3, 130],
         Called ActnodeChanged (ListenerCb 0) [83, 1, 2, 3, 130]]
   \<and> act_id (snd (actnode (Some [83, 1, 2, 3, 130])
               (snd (actnode (Some [83, 1, 2, 3, 129]) subscribed_client))))
      = Some [83, 1, 2, 3, 130]"
proof -
  let ?n1 = "[83, 1, 2, 3, 129] :: bytes"
  let ?n2 = "[83, 1, 2, 3, 130] :: bytes"
  let ?c1 = "snd (actnode (Some ?n1) subscribed_client)"
  have inv1: "client_inv ?c1"
    using client_step_inv [OF step_actnode subscribed_client_inv] .
  have unknown: "[83, 9, 9, 9, 129] \<notin> nodes subscribed_client"
    by code_simp
  have first: "?n1 \<noteq> [] \<and> ?n1 \<in> nodes subscribed_client \<and> act_id subscribed_client = None"
    by code_simp
  have second: "?n2 \<noteq> [] \<and> ?n2 \<in> nodes ?c1 \<and> act_id ?c1 \<noteq> Some ?n2"
    by code_simp
  have ops: "switch_ops (act_id ?c1) ?n2 (acttopics ?c1)
               @ map (\<lambda>cb. Called ActnodeChanged cb ?n2) (actnode_changed ?c1)
    = [SetSockOpt UNSUBSCRIBE [42, 42, 42, 42, 42, 65, 67, 68, 65, 84, 65, 83, 1, 2, 3, 129],
         SetSockOpt SUBSCRIBE [42, 42, 42, 42, 42, 65, 67, 68, 65, 84, 65, 83, 1, 2, 3, 130],
         SetSockOpt UNSUBSCRIBE
           [42, 42, 42, 42, 42, 82, 79, 85, 84, 69, 68, 65, 84, 65, 83, 1, 2, 3, 129],
         SetSockOpt SUBSCRIBE
           [42, 42, 42, 42, 42, 82, 79, 85, 84, 69, 68, 65, 84, 65, 83, 1, 2, 3, 130],
         Called ActnodeChanged (ListenerCb 0) [83, 1, 2, 3, 130]]"
    by code_simp
  have a: "snd (actnode (Some [83, 9, 9, 9, 129]) subscribed_client) = subscribed_client
     \<and> fst (actnode (Some [83, 9, 9, 9, 129]) subscribed_client) = None"
    using C1_actnode [OF subscribed_client_inv, of "[83, 9, 9, 9, 129]"] unknown by simp
  have b: "ActnodeCb \<notin> set (node_added ?c1)"
    using C1_actnode [OF subscribed_client_inv, of ?n1] first by blast
  have c: "issued ?c1 (snd (actnode (Some ?n2) ?c1))
             = switch_ops (act_id ?c1) ?n2 (acttopics ?c1)
               @ map (\<lambda>cb. Called ActnodeChanged cb ?n2) (actnode_changed ?c1)
           \<and> act_id (snd (actnode (Some ?n2) ?c1)) = Some ?n2"
    using C1_actnode [OF inv1, of ?n2] second by blast
  from a b c ops show ?thesis by simp
qed


section \<open>Throttled pushes of telemetry and traffic, immediate echoes\<close>

lemma emitted_emit_node_info:
  "emitted (emit_node_info q)
     = emitted q @ (if has_consumers q
                    then [NodeInfo (tracked_nodes q) (tracked_servers q) (get_safe_active_node q)
                            (length (tracked_nodes q))]
                    else [])"
  by (simp add: emit_node_info_def)

lemma emit_node_info_fields [simp]:
  "sim_data (emit_node_info q) = sim_data q"
  "has_consumers (emit_node_info q) = has_consumers q"
  "siminfo_interval (emit_node_info q) = siminfo_interval q"
  "last_siminfo_emit (emit_node_info q) = last_siminfo_emit q"
  by (simp_all add: emit_node_info_def emit_def has_consumers_def)

text \<open>The throttles of the two handlers: a consumer is connected, and the difference
  between the clock reading and the time recorded at the last throttled push of the
  topic is at least the topic's interval.\<close>

definition siminfo_open :: "builtins \<Rightarrow> real \<Rightarrow> proxy \<Rightarrow> bool" where
  "siminfo_open bi now p \<longleftrightarrow>
     has_consumers p \<and> siminfo_interval p \<le> float_sub bi now (last_siminfo_emit p)"

definition acdata_open :: "builtins \<Rightarrow> real \<Rightarrow> proxy \<Rightarrow> bool" where
  "acdata_open bi now p \<longleftrightarrow>
     has_consumers p \<and> acdata_interval p \<le> float_sub bi now (last_acdata_emit p)"

text \<open>A state reached inside the telemetry handler before the throttled push: the
  snapshot is stored, the throttle's inputs are those of the start, and no telemetry
  event has been pushed.\<close>

definition quiet :: "pyval \<Rightarrow> proxy \<Rightarrow> proxy \<Rightarrow> bool" where
  "quiet sim p q \<longleftrightarrow>
     sim_data q = sim \<and> has_consumers q = has_consumers p
     \<and> siminfo_interval q = siminfo_interval p \<and> last_siminfo_emit q = last_siminfo_emit p
     \<and> length (emitted p) \<le> length (emitted q)
     \<and> Emit ''siminfo'' sim \<notin> set (pushed p q)"

lemma quiet_push:
  assumes "quiet sim p q"
  shows "sim_data (push_siminfo bi now sim q) = sim"
    and "Emit ''siminfo'' sim \<in> set (pushed p (push_siminfo bi now sim q)) \<longleftrightarrow> siminfo_open bi now p"
    and "last_siminfo_emit (push_siminfo bi now sim q)
           = (if siminfo_open bi now p then now else last_siminfo_emit p)"
  using assms
  by (auto simp: quiet_def push_siminfo_def pushed_def emit_def has_consumers_def siminfo_open_def
      split: if_splits)

lemma quiet_plain:
  assumes "quiet sim p q"
  shows "sim_data q = sim" and "Emit ''siminfo'' sim \<notin> set (pushed p q)"
    and "last_siminfo_emit q = last_siminfo_emit p"
  using assms by (simp_all add: quiet_def)

lemma quiet_base: "quiet sim p (p\<lparr>last_successful_update := t, sim_data := sim\<rparr>)"
  by (simp add: quiet_def has_consumers_def pushed_def)

lemma quiet_tracked: "quiet sim p q \<Longrightarrow> quiet sim p (q\<lparr>tracked_nodes := tn\<rparr>)"
  by (simp add: quiet_def has_consumers_def pushed_def)

lemma quiet_node_info: "quiet sim p q \<Longrightarrow> quiet sim p (emit_node_info q)"
  by (auto simp: quiet_def pushed_def emitted_emit_node_info)

lemma siminfo_throttled:
  assumes "allow_reconnection p"
    and "siminfo_record bi speed simdt simt simutc ntraf state scenname (hex sender) = Some sim"
  shows "sim_data (on_siminfo_received bi now1 now2 speed simdt simt simutc ntraf state scenname sender p) = sim"
    and "Emit ''siminfo'' sim
           \<in> set (pushed p (on_siminfo_received bi now1 now2 speed simdt simt simutc ntraf state scenname sender p))
         \<Longrightarrow> siminfo_open bi now2 p"
    and "last_siminfo_emit (on_siminfo_received bi now1 now2 speed simdt simt simutc ntraf state scenname sender p)
           = (if Emit ''siminfo'' sim
                   \<in> set (pushed p (on_siminfo_received bi now1 now2 speed simdt simt simutc ntraf
                                      state scenname sender p))
              then now2 else last_siminfo_emit p)"
proof -
  let ?p2 = "p\<lparr>last_successful_update := now1, sim_data := sim\<rparr>"
  let ?r = "on_siminfo_received bi now1 now2 speed simdt simt simutc ntraf state scenname sender p"
  have "\<exists>q. quiet sim p q \<and> (?r = q \<or> ?r = push_siminfo bi now2 sim q)"
  proof (cases "hex sender \<noteq> [] \<and> hex sender \<in> set (map fst (tracked_nodes p))")
    case False
    then have "?r = push_siminfo bi now2 sim ?p2"
      using assms by (auto simp: on_siminfo_received_def Let_def)
    then show ?thesis using quiet_base by blast
  next
    case True
    show ?thesis
    proof (cases "if simt = VNone then Some ''00:00:00''
                  else map_option (\<lambda>t. take (length t - 3) t) (tim2txt bi simt)")
      case None
      then have "?r = ?p2"
        using assms True by (simp add: on_siminfo_received_def Let_def)
      then show ?thesis using quiet_base by blast
    next
      case (Some simt_str)
      let ?p3 = "?p2\<lparr>tracked_nodes :=
                      update_node (hex sender) (if truthy scenname then scenname else VStr ''init'')
                        simt_str (tracked_nodes ?p2)\<rparr>"
      have q3: "quiet sim p ?p3" by (rule quiet_tracked [OF quiet_base])
      show ?thesis
      proof (cases "py_int bi (if truthy simt then simt else VInt 0)")
        case None
        then have "?r = ?p3"
          using assms True Some by (simp add: on_siminfo_received_def Let_def)
        then show ?thesis using q3 by blast
      next
        case (Some secs)
        then have "?r = push_siminfo bi now2 sim (if secs mod 5 = 0 then emit_node_info ?p3 else ?p3)"
          using assms True \<open>_ = Some simt_str\<close> by (simp add: on_siminfo_received_def Let_def)
        moreover have "quiet sim p (if secs mod 5 = 0 then emit_node_info ?p3 else ?p3)"
          using q3 by (simp add: quiet_node_info)
        ultimately show ?thesis by blast
      qed
    qed
  qed
  then obtain q where q: "quiet sim p q" "?r = q \<or> ?r = push_siminfo bi now2 sim q" by blast
  show "sim_data ?r = sim"
    using q quiet_push(1) [OF q(1)] quiet_plain(1) [OF q(1)] by auto
  show "Emit ''siminfo'' sim \<in> set (pushed p ?r) \<Longrightarrow> siminfo_open bi now2 p"
    using q quiet_push(2) [OF q(1)] quiet_plain(2) [OF q(1)] by auto
  show "last_siminfo_emit ?r
          = (if Emit ''siminfo'' sim \<in> set (pushed p ?r) then now2 else last_siminfo_emit p)"
    using q quiet_push(2,3) [OF q(1), of bi now2] quiet_plain(2,3) [OF q(1)] by auto
qed

lemma siminfo_untracked:
  assumes "allow_reconnection p"
    and "siminfo_record bi speed simdt simt simutc ntraf state scenname (hex sender) = Some sim"
    and "hex sender \<notin> set (map fst (tracked_nodes p))"
  shows "pushed p (on_siminfo_received bi now1 now2 speed simdt simt simutc ntraf state scenname sender p)
           = (if siminfo_open bi now2 p then [Emit ''siminfo'' sim] else [])"
proof -
  have "on_siminfo_received bi now1 now2 speed simdt simt simutc ntraf state scenname sender p
          = push_siminfo bi now2 sim (p\<lparr>last_successful_update := now1, sim_data := sim\<rparr>)"
    using assms by (auto simp: on_siminfo_received_def Let_def)
  then show ?thesis
    by (simp add: push_siminfo_def pushed_def has_consumers_def emit_def siminfo_open_def)
qed

lemma siminfo_rejected:
  assumes "allow_reconnection p"
    and "siminfo_record bi speed simdt simt simutc ntraf state scenname (hex sender) = None"
  shows "on_siminfo_received bi now1 now2 speed simdt simt simutc ntraf state scenname sender p
           = p\<lparr>last_successful_update := now1\<rparr>"
  using assms by (simp add: on_siminfo_received_def Let_def)

lemma acdata_throttled:
  assumes "allow_reconnection p" and "\<not> reset_context p"
    and "make_json_serializable bi data = Some sd"
  shows "traffic_data (on_acdata_received bi now1 now2 data p) = sd"
    and "pushed p (on_acdata_received bi now1 now2 data p)
           = (if acdata_open bi now2 p then [Emit ''acdata'' sd] else [])"
    and "last_acdata_emit (on_acdata_received bi now1 now2 data p)
           = (if acdata_open bi now2 p then now2 else last_acdata_emit p)"
  using assms
  by (auto simp: on_acdata_received_def Let_def pushed_def has_consumers_def emit_def
      acdata_open_def)

lemma acdata_rejected:
  assumes "allow_reconnection p" and "\<not> reset_context p"
    and "make_json_serializable bi data = None"
  shows "on_acdata_received bi now1 now2 data p = p\<lparr>last_successful_update := now1\<rparr>"
  using assms by (simp add: on_acdata_received_def Let_def)

lemma acdata_reset:
  assumes "allow_reconnection p" and "reset_context p"
  shows "traffic_data (on_acdata_received bi now1 now2 data p) = cleared_traffic_data"
    and "pushed p (on_acdata_received bi now1 now2 data p)
           = (if has_consumers p then [Emit ''acdata'' cleared_traffic_data] else [])"
    and "last_acdata_emit (on_acdata_received bi now1 now2 data p) = last_acdata_emit p"
  using assms
  by (auto simp: on_acdata_received_def Let_def pushed_def has_consumers_def emit_def)

lemma echo_immediate:
  assumes "allow_reconnection p" and "echo_record bi now2 text flags sid = Some e"
  shows "echo_data (echo bi now1 now2 text flags sid p) = e"
    and "pushed p (echo bi now1 now2 text flags sid p)
           = (if has_consumers p then [Emit ''echo'' e] else [])"
  using assms
  by (auto simp: echo_def Let_def pushed_def has_consumers_def emit_def)

lemma echo_rejected:
  assumes "allow_reconnection p" and "echo_record bi now2 text flags sid = None"
  shows "echo bi now1 now2 text flags sid p = p\<lparr>last_successful_update := now1\<rparr>"
  using assms by (simp add: echo_def Let_def)

text \<open>The example proxy under a reset context; the same proxy once the next frame has
  set a plain context; a traffic table, and one with a key that does not decode.\<close>

definition reset_proxy :: proxy where
  "reset_proxy =
     example_proxy\<lparr>bluesky_client := Some (active_client\<lparr>ctx_action := VStr ''RESET''\<rparr>),
                   last_acdata_emit := 100\<rparr>"

definition plain_context :: "proxy \<Rightarrow> proxy" where
  "plain_context p = p\<lparr>bluesky_client := map_option (\<lambda>c. c\<lparr>ctx_action := VNone\<rparr>) (bluesky_client p)\<rparr>"

definition sample_table :: pyval where
  "sample_table = VDict [(VStr ''id'', VList [VStr ''KL204'']), (VStr ''lat'', VList [VFloat 52])]"

definition undecodable_table :: pyval where
  "undecodable_table = VDict [(VBytes [255], VList [VStr ''KL204''])]"

text \<open>
  C6, as stated, has every received value update the cached snapshot, has a value
  pushed only when the minimum interval has elapsed since the topic's last push, and
  has every echo pushed at once.
  \<^item> Under a reset context the received traffic table is dropped: the snapshot
    becomes the cleared table, and the cleared table is pushed although the time
    recorded for the last traffic push is 1/1024 s old (interval 0.1 s).
  \<^item> That push is not recorded: the table of the next frame, received 1/1024 s
    later in a plain context by a proxy whose recorded time is 0, is pushed too, two
    traffic pushes within 1/512 s.
  \<^item> A traffic table with a key that does not decode, a telemetry summary whose
    speed is no number and an echo whose flags are no number leave the snapshot as it
    was, and nothing is pushed although a consumer is connected.
\<close>

theorem C6_throttle_counterexample:
  "allow_reconnection reset_proxy
   \<and> make_json_serializable sample_builtins sample_table = Some sample_table
   \<and> traffic_data (on_acdata_received sample_builtins 100 (100 + 1 / 1024) sample_table reset_proxy)
       = cleared_traffic_data
   \<and> cleared_traffic_data \<noteq> sample_table
   \<and> pushed reset_proxy
        (on_acdata_received sample_builtins 100 (100 + 1 / 1024) sample_table reset_proxy)
       = [Emit ''acdata'' cleared_traffic_data]
   \<and> pushed (reset_proxy\<lparr>last_acdata_emit := 0\<rparr>)
        (on_acdata_received sample_builtins 100 (100 + 1 / 512) sample_table
           (plain_context
              (on_acdata_received sample_builtins 100 (100 + 1 / 1024) sample_table
                 (reset_proxy\<lparr>last_acdata_emit := 0\<rparr>))))
       = [Emit ''acdata'' cleared_traffic_data, Emit ''acdata'' sample_table]
   \<and> has_consumers example_proxy \<and> allow_reconnection example_proxy
   \<and> traffic_data (on_acdata_received sample_builtins 1 1 undecodable_table example_proxy) = VDict []
   \<and> pushed example_proxy (on_acdata_received sample_builtins 1 1 undecodable_table example_proxy) = []
   \<and> sim_data (on_siminfo_received sample_builtins 1 1 (VStr ''fast'') (VFloat 1) (VFloat 30)
                  (VStr ''2024-01-01'') (VInt 4) (VInt 2) (VStr ''demo'') [83, 1, 2, 3, 129]
                  example_proxy) = VDict []
   \<and> pushed example_proxy
        (echo sample_builtins 1 2 (VStr ''done'') (VStr ''x'') (VBytes [83, 1, 2, 3, 129]) example_proxy)
       = []"
  by code_simp

text \<open>
  C6, amended. While the proxy accepts data (\<open>allow_reconnection\<close>):
  \<^item> a telemetry summary whose fields convert (\<open>float\<close>, \<open>int\<close>) becomes the cached
    snapshot; it is pushed only if a consumer is connected and the clock reading minus
    the time recorded at the last throttled telemetry push, as doubles, is at least the
    telemetry interval; the handler records the clock reading as that time exactly when
    it pushes; for a sender that is not tracked it pushes exactly under this condition,
    and nothing else; a summary whose fields do not convert changes neither the
    snapshot nor the recorded time, and nothing is pushed;
  \<^item> a traffic table received outside a reset or active-change context, when it
    converts to its JSON-ready form, becomes in that form the cached snapshot, and is
    pushed exactly when a consumer is connected and the clock reading minus the time
    recorded at the last throttled traffic push is at least the traffic interval; the
    handler records the clock reading as that time exactly when it pushes; a table that
    does not convert changes neither the snapshot nor the recorded time, and nothing
    is pushed;
  \<^item> under a reset or active-change context the snapshot becomes the cleared table,
    which is pushed at once when a consumer is connected, and the recorded time stays
    as it was;
  \<^item> an echo whose flags convert (\<open>int\<close>) is stored and pushed at once, without any
    interval, when a consumer is connected; an echo whose flags do not convert is
    neither stored nor pushed.
\<close>

theorem C6_throttle:
  assumes "allow_reconnection p"
  shows "(siminfo_record bi speed simdt simt simutc ntraf state scenname (hex sender) = Some sim \<longrightarrow>
            sim_data (on_siminfo_received bi now1 now2 speed simdt simt simutc ntraf state scenname sender p) = sim
            \<and> (Emit ''siminfo'' sim
                 \<in> set (pushed p (on_siminfo_received bi now1 now2 speed simdt simt simutc ntraf state
                                    scenname sender p))
               \<longrightarrow> siminfo_open bi now2 p)
            \<and> last_siminfo_emit (on_siminfo_received bi now1 now2 speed simdt simt simutc ntraf state
                                    scenname sender p)
                = (if Emit ''siminfo'' sim
                        \<in> set (pushed p (on_siminfo_received bi now1 now2 speed simdt simt simutc
                                           ntraf state scenname sender p))
                   then now2 else last_siminfo_emit p)
            \<and> (hex sender \<notin> set (map fst (tracked_nodes p)) \<longrightarrow>
                 pushed p (on_siminfo_received bi now1 now2 speed simdt simt simutc ntraf state
                             scenname sender p)
                   = (if siminfo_open bi now2 p then [Emit ''siminfo'' sim] else [])))
         \<and> (siminfo_record bi speed simdt simt simutc ntraf state scenname (hex sender) = None \<longrightarrow>
              sim_data (on_siminfo_received bi now1 now2 speed simdt simt simutc ntraf state scenname sender p)
                = sim_data p
              \<and> last_siminfo_emit (on_siminfo_received bi now1 now2 speed simdt simt simutc ntraf state
                                      scenname sender p) = last_siminfo_emit p
              \<and> pushed p (on_siminfo_received bi now1 now2 speed simdt simt simutc ntraf state
                            scenname sender p) = [])
         \<and> (\<not> reset_context p \<and> make_json_serializable bi data = Some sd \<longrightarrow>
              traffic_data (on_acdata_received bi now1 now2 data p) = sd
              \<and> pushed p (on_acdata_received bi now1 now2 data p)
                  = (if acdata_open bi now2 p then [Emit ''acdata'' sd] else [])
              \<and> last_acdata_emit (on_acdata_received bi now1 now2 data p)
                  = (if acdata_open bi now2 p then now2 else last_acdata_emit p))
         \<and> (\<not> reset_context p \<and> make_json_serializable bi data = None \<longrightarrow>
              traffic_data (on_acdata_received bi now1 now2 data p) = traffic_data p
              \<and> pushed p (on_acdata_received bi now1 now2 data p) = []
              \<and> last_acdata_emit (on_acdata_received bi now1 now2 data p) = last_acdata_emit p)
         \<and> (reset_context p \<longrightarrow>
              traffic_data (on_acdata_received bi now1 now2 data p) = cleared_traffic_data
              \<and> pushed p (on_acdata_received bi now1 now2 data p)
                  = (if has_consumers p then [Emit ''acdata'' cleared_traffic_data] else [])
              \<and> last_acdata_emit (on_acdata_received bi now1 now2 data p) = last_acdata_emit p)
         \<and> (echo_record bi now2 etext flags sid = Some e \<longrightarrow>
              echo_data (echo bi now1 now2 etext flags sid p) = e
              \<and> pushed p (echo bi now1 now2 etext flags sid p)
                  = (if has_consumers p then [Emit ''echo'' e] else []))
         \<and> (echo_record bi now2 etext flags sid = None \<longrightarrow>
              echo_data (echo bi now1 now2 etext flags sid p) = echo_data p
              \<and> pushed p (echo bi now1 now2 etext flags sid p) = [])"
proof (intro conjI impI)
  assume r: "siminfo_record bi speed simdt simt simutc ntraf state scenname (hex sender) = Some sim"
  show "sim_data (on_siminfo_received bi now1 now2 speed simdt simt simutc ntraf state scenname sender p) = sim"
    by (rule siminfo_throttled(1) [OF assms r])
  show "siminfo_open bi now2 p"
    if "Emit ''siminfo'' sim
          \<in> set (pushed p (on_siminfo_received bi now1 now2 speed simdt simt simutc ntraf state
                             scenname sender p))"
    by (rule siminfo_throttled(2) [OF assms r that])
  show "last_siminfo_emit (on_siminfo_received bi now1 now2 speed simdt simt simutc ntraf state
                             scenname sender p)
          = (if Emit ''siminfo'' sim
                  \<in> set (pushed p (on_siminfo_received bi now1 now2 speed simdt simt simutc
                                     ntraf state scenname sender p))
             then now2 else last_siminfo_emit p)"
    by (rule siminfo_throttled(3) [OF assms r])
  show "pushed p (on_siminfo_received bi now1 now2 speed simdt simt simutc ntraf state
                    scenname sender p)
          = (if siminfo_open bi now2 p then [Emit ''siminfo'' sim] else [])"
    if "hex sender \<notin> set (map fst (tracked_nodes p))"
    by (rule siminfo_untracked [OF assms r that])
next
  assume r: "siminfo_record bi speed simdt simt simutc ntraf state scenname (hex sender) = None"
  note e = siminfo_rejected [OF assms r, of now1 now2]
  show "sim_data (on_siminfo_received bi now1 now2 speed simdt simt simutc ntraf state scenname sender p)
          = sim_data p"
    and "last_siminfo_emit (on_siminfo_received bi now1 now2 speed simdt simt simutc ntraf state
                              scenname sender p) = last_siminfo_emit p"
    and "pushed p (on_siminfo_received bi now1 now2 speed simdt simt simutc ntraf state
                     scenname sender p) = []"
    by (simp_all add: e pushed_def)
next
  assume a: "\<not> reset_context p \<and> make_json_serializable bi data = Some sd"
  note t = acdata_throttled [OF assms conjunct1 [OF a] conjunct2 [OF a], of now1 now2]
  show "traffic_data (on_acdata_received bi now1 now2 data p) = sd" by (rule t(1))
  show "pushed p (on_acdata_received bi now1 now2 data p)
          = (if acdata_open bi now2 p then [Emit ''acdata'' sd] else [])" by (rule t(2))
  show "last_acdata_emit (on_acdata_received bi now1 now2 data p)
          = (if acdata_open bi now2 p then now2 else last_acdata_emit p)" by (rule t(3))
next
  assume a: "\<not> reset_context p \<and> make_json_serializable bi data = None"
  note e = acdata_rejected [OF assms conjunct1 [OF a] conjunct2 [OF a], of now1 now2]
  show "traffic_data (on_acdata_received bi now1 now2 data p) = traffic_data p"
    and "pushed p (on_acdata_received bi now1 now2 data p) = []"
    and "last_acdata_emit (on_acdata_received bi now1 now2 data p) = last_acdata_emit p"
    by (simp_all add: e pushed_def)
next
  assume a: "reset_context p"
  note t = acdata_reset [OF assms a, of bi now1 now2 data]
  show "traffic_data (on_acdata_received bi now1 now2 data p) = cleared_traffic_data" by (rule t(1))
  show "pushed p (on_acdata_received bi now1 now2 data p)
          = (if has_consumers p then [Emit ''acdata'' cleared_traffic_data] else [])" by (rule t(2))
  show "last_acdata_emit (on_acdata_received bi now1 now2 data p) = last_acdata_emit p" by (rule t(3))
next
  assume a: "echo_record bi now2 etext flags sid = Some e"
  note t = echo_immediate [OF assms a, of now1]
  show "echo_data (echo bi now1 now2 etext flags sid p) = e" by (rule t(1))
  show "pushed p (echo bi now1 now2 etext flags sid p)
          = (if has_consumers p then [Emit ''echo'' e] else [])" by (rule t(2))
next
  assume a: "echo_record bi now2 etext flags sid = None"
  note e = echo_rejected [OF assms a, of now1]
  show "echo_data (echo bi now1 now2 etext flags sid p) = echo_data p"
    and "pushed p (echo bi now1 now2 etext flags sid p) = []"
    by (simp_all add: e pushed_def)
qed

theorem C6_throttle_witness:
  "traffic_data (on_acdata_received sample_builtins 1 1 sample_table example_proxy) = sample_table
   \<and> pushed example_proxy (on_acdata_received sample_builtins 1 1 sample_table example_proxy)
       = [Emit ''acdata'' sample_table]
   \<and> last_acdata_emit (on_acdata_received sample_builtins 1 1 sample_table example_proxy) = 1
   \<and> traffic_data (on_acdata_received sample_builtins 1 1 sample_table
                      (example_proxy\<lparr>last_acdata_emit := 31 / 32\<rparr>)) = sample_table
   \<and> pushed (example_proxy\<lparr>last_acdata_emit := 31 / 32\<rparr>)
        (on_acdata_received sample_builtins 1 1 sample_table
           (example_proxy\<lparr>last_acdata_emit := 31 / 32\<rparr>)) = []
   \<and> last_acdata_emit (on_acdata_received sample_builtins 1 1 sample_table
                          (example_proxy\<lparr>last_acdata_emit := 31 / 32\<rparr>)) = 31 / 32
   \<and> sim_data (on_siminfo_received sample_builtins 1 1 (VFloat 1) (VFloat (1 / 16)) (VFloat 30)
                  (VStr ''2024-01-01'') (VInt 4) (VInt 2) (VStr ''demo'') [83, 1, 2, 3, 129]
                  example_proxy)
       = VDict [(VStr ''speed'', VFloat 1), (VStr ''simdt'', VFloat (1 / 16)),
                (VStr ''simt'', VFloat 30), (VStr ''simutc'', VStr ''2024-01-01''),
                (VStr ''ntraf'', VInt 4), (VStr ''state'', VInt 2),
                (VStr ''scenname'', VStr ''demo''), (VStr ''sender_id'', VStr ''5301020381'')]
   \<and> pushed example_proxy
        (echo sample_builtins 1 2 (VStr ''done'') (VInt 0) (VBytes [83, 1, 2, 3, 129]) example_proxy)
       = [Emit ''echo'' (VDict [(VStr ''text'', VStr ''done''), (VStr ''flags'', VInt 0),
                                (VStr ''timestamp'', VFloat 2),
                                (VStr ''sender'', VStr ''5301020381'')])]"
proof -
  let ?q = "example_proxy\<lparr>last_acdata_emit := 31 / 32\<rparr>"
  have a: "allow_reconnection example_proxy" "allow_reconnection ?q"
    by (simp_all add: example_proxy_def)
  have n: "\<not> reset_context example_proxy \<and> make_json_serializable sample_builtins sample_table = Some sample_table"
    "\<not> reset_context ?q \<and> make_json_serializable sample_builtins sample_table = Some sample_table"
    by code_simp+
  have h: "acdata_open sample_builtins 1 example_proxy" "\<not> acdata_open sample_builtins 1 ?q"
    "has_consumers example_proxy"
    by (simp_all add: example_proxy_def init_proxy_def has_consumers_def acdata_open_def
        sample_builtins_def tenth_def)
  have s: "siminfo_record sample_builtins (VFloat 1) (VFloat (1 / 16)) (VFloat 30)
                  (VStr ''2024-01-01'') (VInt 4) (VInt 2) (VStr ''demo'') (hex [83, 1, 2, 3, 129])
     = Some (VDict [(VStr ''speed'', VFloat 1), (VStr ''simdt'', VFloat (1 / 16)),
                (VStr ''simt'', VFloat 30), (VStr ''simutc'', VStr ''2024-01-01''),
                (VStr ''ntraf'', VInt 4), (VStr ''state'', VInt 2),
                (VStr ''scenname'', VStr ''demo''), (VStr ''sender_id'', VStr ''5301020381'')])"
    by code_simp
  have e: "echo_record sample_builtins 2 (VStr ''done'') (VInt 0) (VBytes [83, 1, 2, 3, 129])
     = Some (VDict [(VStr ''text'', VStr ''done''), (VStr ''flags'', VInt 0),
                                (VStr ''timestamp'', VFloat 2),
                                (VStr ''sender'', VStr ''5301020381'')])"
    by code_simp
  have t1: "traffic_data (on_acdata_received sample_builtins 1 1 sample_table example_proxy) = sample_table
      \<and> pushed example_proxy (on_acdata_received sample_builtins 1 1 sample_table example_proxy)
          = [Emit ''acdata'' sample_table]
      \<and> last_acdata_emit (on_acdata_received sample_builtins 1 1 sample_table example_proxy) = 1"
    using C6_throttle [OF a(1), where bi = sample_builtins and data = sample_table and sd = sample_table
        and ?now1.0 = 1 and ?now2.0 = 1]
      n(1) h(1) by simp
  have t2: "traffic_data (on_acdata_received sample_builtins 1 1 sample_table ?q) = sample_table
      \<and> pushed ?q (on_acdata_received sample_builtins 1 1 sample_table ?q) = []
      \<and> last_acdata_emit (on_acdata_received sample_builtins 1 1 sample_table ?q) = 31 / 32"
    using C6_throttle [OF a(2), where bi = sample_builtins and data = sample_table and sd = sample_table
        and ?now1.0 = 1 and ?now2.0 = 1]
      n(2) h(2) by simp
  have t3: "sim_data (on_siminfo_received sample_builtins 1 1 (VFloat 1) (VFloat (1 / 16)) (VFloat 30)
                  (VStr ''2024-01-01'') (VInt 4) (VInt 2) (VStr ''demo'') [83, 1, 2, 3, 129]
                  example_proxy)
       = VDict [(VStr ''speed'', VFloat 1), (VStr ''simdt'', VFloat (1 / 16)),
                (VStr ''simt'', VFloat 30), (VStr ''simutc'', VStr ''2024-01-01''),
                (VStr ''ntraf'', VInt 4), (VStr ''state'', VInt 2),
                (VStr ''scenname'', VStr ''demo''), (VStr ''sender_id'', VStr ''5301020381'')]"
    using C6_throttle [OF a(1), where bi = sample_builtins and speed = "VFloat 1"
        and simdt = "VFloat (1 / 16)" and simt = "VFloat 30" and simutc = "VStr ''2024-01-01''"
        and ntraf = "VInt 4" and state = "VInt 2" and scenname = "VStr ''demo''"
        and sender = "[83, 1, 2, 3, 129]" and ?now1.0 = 1 and ?now2.0 = 1] s
    by blast
  have t4: "pushed example_proxy
        (echo sample_builtins 1 2 (VStr ''done'') (VInt 0) (VBytes [83, 1, 2, 3, 129]) example_proxy)
       = [Emit ''echo'' (VDict [(VStr ''text'', VStr ''done''), (VStr ''flags'', VInt 0),
                                (VStr ''timestamp'', VFloat 2),
                                (VStr ''sender'', VStr ''5301020381'')])]"
    using C6_throttle [OF a(1), where bi = sample_builtins and ?now1.0 = 1 and ?now2.0 = 2
        and etext = "VStr ''done''" and flags = "VInt 0" and sid = "VBytes [83, 1, 2, 3, 129]"] e h(3)
    by simp
  from t1 t2 t3 t4 show ?thesis by simp
qed


section \<open>Eviction of stored shapes\<close>

text \<open>The named shapes stored for a sender, the stored value that holds them, and the
  shape of a store as construction and the handler leave it: the sender's entry, if
  there is one, is a table of distinctly named shapes.\<close>

definition stored_shapes :: "string \<Rightarrow> (string \<times> pyval) list \<Rightarrow> (pyval \<times> pyval) list" where
  "stored_shapes sid store =
     (case map_of store sid of
        Some (VDict skvs) \<Rightarrow>
          (case map_of skvs (VStr ''polys'') of Some (VDict entries) \<Rightarrow> entries | _ \<Rightarrow> [])
      | _ \<Rightarrow> [])"

definition shape_table :: "(pyval \<times> pyval) list \<Rightarrow> pyval" where
  "shape_table entries = VDict [(VStr ''polys'', VDict entries)]"

definition well_stored :: "string \<Rightarrow> (string \<times> pyval) list \<Rightarrow> bool" where
  "well_stored sid store \<longleftrightarrow>
     (case map_of store sid of
        None \<Rightarrow> True
      | Some v \<Rightarrow> v = shape_table (stored_shapes sid store)
                  \<and> distinct (map fst (stored_shapes sid store)))"




text \<open>What a step of the handler for sender \<open>sid\<close> leaves alone: whether the proxy
  accepts data, the protocol client, and the stores of every other sender.\<close>

definition adjusted :: "string \<Rightarrow> proxy \<Rightarrow> proxy \<Rightarrow> bool" where
  "adjusted sid p q \<longleftrightarrow>
     allow_reconnection q = allow_reconnection p \<and> bluesky_client q = bluesky_client p
     \<and> (\<forall>s. s \<noteq> sid \<longrightarrow>
           map_of (poly_data_by_node q) s = map_of (poly_data_by_node p) s
           \<and> map_of (polyline_data_by_node q) s = map_of (polyline_data_by_node p) s)"









subsection \<open>Dicts in insertion order\<close>




lemma dict_update_Nil [simp]: "dict_update d [] = d"
  by (simp add: dict_update_def)










subsection \<open>The stored tables through the steps of the handler\<close>





lemma stored_shapes_update [simp]:
  "stored_shapes sid (AList.update sid (shape_table es) store) = es"
  by (simp add: stored_shapes_def update_conv' shape_table_def)





lemma well_stored_empty [simp]: "well_stored sid []"
  by (simp add: well_stored_def)


lemma adjusted_refl [simp]: "adjusted sid p p"
  by (simp add: adjusted_def)


lemma adjusted_upd [simp]:
  "adjusted sid p (p\<lparr>poly_data_by_node := AList.update sid v (poly_data_by_node p)\<rparr>)"
  "adjusted sid p (p\<lparr>polyline_data_by_node := AList.update sid v (polyline_data_by_node p)\<rparr>)"
  by (simp_all add: adjusted_def update_conv')























lemma emit_shapes_fields [simp]:
  "poly_data_by_node (emit_shapes sid p) = poly_data_by_node p"
  "polyline_data_by_node (emit_shapes sid p) = polyline_data_by_node p"
  "allow_reconnection (emit_shapes sid p) = allow_reconnection p"
  "bluesky_client (emit_shapes sid p) = bluesky_client p"
  by (simp_all add: emit_shapes_def emit_def)


lemma context_sender_stamp [simp]:
  "context_sender (p\<lparr>last_successful_update := now\<rparr>) = context_sender p"
  by (simp add: context_sender_def)












text \<open>The stores are well-formed from the start, stay so under the handler, whatever it
  is given and whoever the sender is (\<open>on_poly_received_well_stored\<close>), and are
  well-formed again after a disconnection.\<close>

lemma init_proxy_well_stored:
  "well_stored s (poly_data_by_node (init_proxy t)) \<and> well_stored s (polyline_data_by_node (init_proxy t))"
  by (simp add: init_proxy_def)

lemma handle_disconnection_well_stored:
  "well_stored s (poly_data_by_node (handle_disconnection f t1 t2 t3 p))
   \<and> well_stored s (polyline_data_by_node (handle_disconnection f t1 t2 t3 p))"
  using handle_disconnection_disconnected [of f t1 t2 t3 p]
  by (simp add: disconnected_after_def)












end
